theory Spec2Isabelle
  imports Complex_Main "HOL-Library.Sublist"
begin

section \<open>Conventions\<close>

text \<open>
  This theory embeds the liquidation monitor: the two exchange adapters
  (\<^verbatim>\<open>liquidation_ba.py\<close>, \<^verbatim>\<open>liquidation_okx.py\<close>) and the hub
  (\<^verbatim>\<open>liquidation_hub.py\<close>).

  \<^item> A Python \<^verbatim>\<open>str\<close> is a \<open>string\<close> holding its UTF-8 bytes. The encoding is
    injective and keeps the code-point order, so equality tests and comparisons of
    strings are those of the source.
  \<^item> A \<^verbatim>\<open>datetime\<close> produced by \<^verbatim>\<open>strptime\<close> with the format
    \<^verbatim>\<open>%Y-%m-%d %H:%M:%S\<close> has no sub-second part: it is an \<open>int\<close>, the number of
    seconds since 1970-01-01 00:00:00 on the naive (UTC+8) clock the program uses.
    A reading of the clock (\<^verbatim>\<open>datetime.utcnow() + timedelta(hours=8)\<close>) has
    microseconds: it is a \<open>real\<close> number of seconds on the same scale.
  \<^item> A Python \<^verbatim>\<open>float\<close> is a \<open>real\<close>: prices and amounts are computed without
    rounding error.
  \<^item> Functions of the Python library that parse text (\<^verbatim>\<open>datetime.strptime\<close>,
    \<^verbatim>\<open>float\<close>, \<^verbatim>\<open>int\<close>, \<^verbatim>\<open>str.isdigit\<close>, \<^verbatim>\<open>str.strip\<close>, \<^verbatim>\<open>str.upper\<close>)
    are parameters of the functions that call them; a parser returns \<open>None\<close> where
    the library raises \<^verbatim>\<open>ValueError\<close>.
\<close>

section \<open>Data model (liquidation\_hub.py)\<close>

record LiquidationEvent =
  timestamp :: int
  symbol :: string
  exchange :: string
  price :: real
  direction :: string
  amount :: real

text \<open>The two direction strings of the source, as UTF-8: \<open>LONG_LIQUIDATED\<close> is the
  four-character string U+591A U+5934 U+7206 U+4ED3 ("long position liquidated") and
  \<open>SHORT_LIQUIDATED\<close> is U+7A7A U+5934 U+7206 U+4ED3 ("short position liquidated").
  \<open>BI_AN\<close> is the legacy Binance tag U+5E01 U+5B89.\<close>

definition LONG_LIQUIDATED :: string where
  "LONG_LIQUIDATED = [CHR 0xE5, CHR 0xA4, CHR 0x9A, CHR 0xE5, CHR 0xA4, CHR 0xB4,
                      CHR 0xE7, CHR 0x88, CHR 0x86, CHR 0xE4, CHR 0xBB, CHR 0x93]"

definition SHORT_LIQUIDATED :: string where
  "SHORT_LIQUIDATED = [CHR 0xE7, CHR 0xA9, CHR 0xBA, CHR 0xE5, CHR 0xA4, CHR 0xB4,
                       CHR 0xE7, CHR 0x88, CHR 0x86, CHR 0xE4, CHR 0xBB, CHR 0x93]"

definition BI_AN :: string where
  "BI_AN = [CHR 0xE5, CHR 0xB8, CHR 0x81, CHR 0xE5, CHR 0xAE, CHR 0x89]"

definition RETENTION_HOURS_DEFAULT :: int where
  "RETENTION_HOURS_DEFAULT = 48"


section \<open>EventStore\<close>

text \<open>\<open>retention\<close> is \<^verbatim>\<open>timedelta(hours=retention_hours)\<close> in seconds; \<open>events\<close> is the
  deque, head first.\<close>

record EventStore =
  retention :: int
  events :: "LiquidationEvent list"
  last_seen_per_exchange :: "string \<rightharpoonup> int"

definition EventStore_init :: "int \<Rightarrow> EventStore" where
  "EventStore_init retention_hours =
     \<lparr>retention = retention_hours * 3600, events = [], last_seen_per_exchange = Map.empty\<rparr>"

text \<open>\<^verbatim>\<open>_evict_older_than\<close>: pop from the left while the head is older than the
  threshold.\<close>

definition evict_older_than :: "real \<Rightarrow> EventStore \<Rightarrow> EventStore" where
  "evict_older_than threshold s =
     s\<lparr>events := dropWhile (\<lambda>e. real_of_int (timestamp e) < threshold) (events s)\<rparr>"

text \<open>\<^verbatim>\<open>EventStore.append\<close>. The notification of the WebSocket broker that follows the
  locked section does not touch the store and is left out.\<close>

definition store_append :: "LiquidationEvent \<Rightarrow> EventStore \<Rightarrow> EventStore" where
  "store_append event s =
     evict_older_than (real_of_int (timestamp event - retention s))
       (s\<lparr>events := events s @ [event],
          last_seen_per_exchange := (last_seen_per_exchange s)(exchange event \<mapsto> timestamp event)\<rparr>)"



definition mk_event :: "int \<Rightarrow> string \<Rightarrow> string \<Rightarrow> real \<Rightarrow> string \<Rightarrow> real \<Rightarrow> LiquidationEvent" where
  "mk_event ts sy ex px dir amt =
     \<lparr>timestamp = ts, symbol = sy, exchange = ex, price = px, direction = dir, amount = amt\<rparr>"


section \<open>Journal rows (CsvTailer, \_initial\_load\_from\_csv)\<close>

text \<open>A journal file is read through \<^verbatim>\<open>csv.reader\<close>: the model starts from the rows it
  yields, each a list of fields. The header row is
  the six Chinese column titles (time, pair, exchange, price, direction, amount) that
  both adapters write when they create their file.\<close>

definition CSV_HEADER :: "string list" where
  "CSV_HEADER =
     [[CHR 0xE6, CHR 0x97, CHR 0xB6, CHR 0xE9, CHR 0x97, CHR 0xB4],
      [CHR 0xE5, CHR 0xB8, CHR 0x81, CHR 0xE5, CHR 0xAF, CHR 0xB9],
      [CHR 0xE4, CHR 0xBA, CHR 0xA4, CHR 0xE6, CHR 0x98, CHR 0x93, CHR 0xE6, CHR 0x89, CHR 0x80],
      [CHR 0xE4, CHR 0xBB, CHR 0xB7, CHR 0xE6, CHR 0xA0, CHR 0xBC],
      [CHR 0xE6, CHR 0x96, CHR 0xB9, CHR 0xE5, CHR 0x90, CHR 0x91],
      [CHR 0xE9, CHR 0x87, CHR 0x91, CHR 0xE9, CHR 0xA2, CHR 0x9D]]"

text \<open>\<^verbatim>\<open>re.sub(r"(USDT|USDC)$", "", symbol, flags=re.I)\<close>. With \<^verbatim>\<open>re.I\<close> the letter S
  of the pattern also matches U+017F (bytes C5 BF); \<^verbatim>\<open>$\<close> matches at the end of the
  text and before a line feed that ends it. The functions work on the reversed text.\<close>

definition drop_S_rev :: "string \<Rightarrow> string option" where
  "drop_S_rev r =
     (case r of
        [] \<Rightarrow> None
      | c # r1 \<Rightarrow>
          if c = CHR ''S'' \<or> c = CHR ''s'' then Some r1
          else (case r1 of
                  [] \<Rightarrow> None
                | c2 # r2 \<Rightarrow> if c = CHR 0xBF \<and> c2 = CHR 0xC5 then Some r2 else None))"

definition drop_quote_rev :: "string \<Rightarrow> string option" where
  "drop_quote_rev r =
     (case r of
        t # d # r1 \<Rightarrow>
          if (t = CHR ''T'' \<or> t = CHR ''t'' \<or> t = CHR ''C'' \<or> t = CHR ''c'')
             \<and> (d = CHR ''D'' \<or> d = CHR ''d'')
          then (case drop_S_rev r1 of
                  None \<Rightarrow> None
                | Some r2 \<Rightarrow>
                    (case r2 of
                       [] \<Rightarrow> None
                     | u # r3 \<Rightarrow> if u = CHR ''U'' \<or> u = CHR ''u'' then Some r3 else None))
          else None
      | _ \<Rightarrow> None)"

definition strip_quote_suffix :: "string \<Rightarrow> string" where
  "strip_quote_suffix sy =
     (if sy \<noteq> [] \<and> last sy = CHR 0x0A
      then (case drop_quote_rev (rev (butlast sy)) of
              None \<Rightarrow> sy
            | Some r \<Rightarrow> rev r @ [CHR 0x0A])
      else (case drop_quote_rev (rev sy) of
              None \<Rightarrow> sy
            | Some r \<Rightarrow> rev r))"

text \<open>\<^verbatim>\<open>CsvTailer._ingest_row\<close>. Every exception of the body (a field that does not
  exist, a timestamp or a number that does not parse) is caught and the row skipped,
  leaving the store as it was.\<close>

definition ingest_row ::
  "(string \<Rightarrow> int option) \<Rightarrow> (string \<Rightarrow> real option) \<Rightarrow> string list \<Rightarrow> EventStore \<Rightarrow> EventStore" where
  "ingest_row strptime pyfloat row s =
     (if length row < 6 then s
      else (case strptime (row ! 0) of
              None \<Rightarrow> s
            | Some ts \<Rightarrow>
                (case pyfloat (row ! 3) of
                   None \<Rightarrow> s
                 | Some px \<Rightarrow>
                     (case pyfloat (row ! 5) of
                        None \<Rightarrow> s
                      | Some amt \<Rightarrow>
                          store_append
                            \<lparr>timestamp = ts,
                             symbol = strip_quote_suffix (row ! 1),
                             exchange = (if row ! 2 = BI_AN \<or> row ! 2 = ''BA''
                                         then ''Binance'' else ''OKX''),
                             price = px,
                             direction = row ! 4,
                             amount = amt\<rparr> s))))"

text \<open>The tailer: \<open>line_index\<close> is \<^verbatim>\<open>_line_index\<close>, \<open>file_inode\<close> the pair
  \<^verbatim>\<open>(st_ino, st_dev)\<close> of the file last opened.\<close>

record CsvTailer =
  line_index :: nat
  file_inode :: "(nat \<times> nat) option"
  has_header_checked :: bool

definition CsvTailer_init :: CsvTailer where
  "CsvTailer_init = \<lparr>line_index = 0, file_inode = None, has_header_checked = False\<rparr>"

text \<open>One round of the loop \<^verbatim>\<open>for idx, row in enumerate(reader)\<close> of
  \<^verbatim>\<open>_read_new_lines\<close>. The loop state is \<^verbatim>\<open>_has_header_checked\<close>, the local
  \<^verbatim>\<open>last_index\<close> and the store; \<^verbatim>\<open>_line_index\<close> is only written after the loop.\<close>

definition tail_step ::
  "(string \<Rightarrow> int option) \<Rightarrow> (string \<Rightarrow> real option) \<Rightarrow> nat \<Rightarrow>
   bool \<times> nat \<times> EventStore \<Rightarrow> nat \<times> string list \<Rightarrow> bool \<times> nat \<times> EventStore" where
  "tail_step strptime pyfloat line_idx st ir =
     (case st of (hdr, last_index, s) \<Rightarrow>
      case ir of (idx, row) \<Rightarrow>
        if idx < line_idx then (hdr, last_index, s)
        else if \<not> hdr \<and> idx = 0 \<and> row = CSV_HEADER then (True, idx + 1, s)
        else if length row \<noteq> 6 then (hdr \<or> idx = 0, idx + 1, s)
        else (hdr \<or> idx = 0, idx + 1, ingest_row strptime pyfloat row s))"

text \<open>\<^verbatim>\<open>_read_new_lines\<close>. The file is \<open>None\<close> when it does not exist
  (\<^verbatim>\<open>FileNotFoundError\<close>, ignored), else its inode pair and its rows.\<close>

definition read_new_lines ::
  "(string \<Rightarrow> int option) \<Rightarrow> (string \<Rightarrow> real option) \<Rightarrow>
   ((nat \<times> nat) \<times> string list list) option \<Rightarrow> CsvTailer \<times> EventStore \<Rightarrow> CsvTailer \<times> EventStore" where
  "read_new_lines strptime pyfloat file ts =
     (case ts of (t, s) \<Rightarrow>
      case file of
        None \<Rightarrow> (t, s)
      | Some (inode, rows) \<Rightarrow>
          let t1 = (if file_inode t \<noteq> Some inode
                    then t\<lparr>line_index := 0, file_inode := Some inode, has_header_checked := False\<rparr>
                    else t)
          in (case foldl (tail_step strptime pyfloat (line_index t1))
                     (has_header_checked t1, line_index t1, s) (enumerate 0 rows) of
                (hdr, last_index, s') \<Rightarrow>
                  (t1\<lparr>line_index := last_index, has_header_checked := hdr\<rparr>, s')))"

text \<open>The body of the row loop of \<^verbatim>\<open>_initial_load_from_csv\<close> for a six-field row:
  the event it appends, or \<open>None\<close> when an exception makes it skip the row.\<close>

definition load_row ::
  "(string \<Rightarrow> int option) \<Rightarrow> (string \<Rightarrow> real option) \<Rightarrow> string list \<Rightarrow> LiquidationEvent option" where
  "load_row strptime pyfloat row =
     (case strptime (row ! 0) of
        None \<Rightarrow> None
      | Some ts \<Rightarrow>
          (case pyfloat (row ! 3) of
             None \<Rightarrow> None
           | Some px \<Rightarrow>
               (case pyfloat (row ! 5) of
                  None \<Rightarrow> None
                | Some amt \<Rightarrow>
                    Some \<lparr>timestamp = ts,
                          symbol = strip_quote_suffix (row ! 1),
                          exchange = (if row ! 2 = BI_AN \<or> row ! 2 = ''BA''
                                      then ''Binance'' else ''OKX''),
                          price = px,
                          direction = row ! 4,
                          amount = amt\<rparr>)))"

text \<open>The row loop of \<^verbatim>\<open>_initial_load_from_csv\<close>; the flag is \<^verbatim>\<open>header_checked\<close>.\<close>

fun load_rows ::
  "(string \<Rightarrow> int option) \<Rightarrow> (string \<Rightarrow> real option) \<Rightarrow> bool \<Rightarrow> string list list \<Rightarrow> LiquidationEvent list" where
  "load_rows strptime pyfloat header_checked [] = []"
| "load_rows strptime pyfloat header_checked (row # rows) =
     (if \<not> header_checked \<and> row = CSV_HEADER then load_rows strptime pyfloat True rows
      else if length row \<noteq> 6 then load_rows strptime pyfloat True rows
      else (case load_row strptime pyfloat row of
              None \<Rightarrow> load_rows strptime pyfloat True rows
            | Some e \<Rightarrow> e # load_rows strptime pyfloat True rows))"

definition initial_load_from_csv ::
  "(string \<Rightarrow> int option) \<Rightarrow> (string \<Rightarrow> real option) \<Rightarrow>
   ((nat \<times> nat) \<times> string list list) option \<Rightarrow> LiquidationEvent list" where
  "initial_load_from_csv strptime pyfloat file =
     (case file of
        None \<Rightarrow> []
      | Some (inode, rows) \<Rightarrow> load_rows strptime pyfloat False rows)"

text \<open>\<^verbatim>\<open>initial_bootstrap\<close>: each loop appends the loaded events that are not older
  than the cutoff.\<close>

definition append_recent :: "real \<Rightarrow> LiquidationEvent list \<Rightarrow> EventStore \<Rightarrow> EventStore" where
  "append_recent cutoff evs s =
     foldl (\<lambda>s e. if cutoff \<le> real_of_int (timestamp e) then store_append e s else s) s evs"

definition initial_bootstrap ::
  "(string \<Rightarrow> int option) \<Rightarrow> (string \<Rightarrow> real option) \<Rightarrow> real \<Rightarrow> int \<Rightarrow>
   ((nat \<times> nat) \<times> string list list) option \<Rightarrow> ((nat \<times> nat) \<times> string list list) option \<Rightarrow>
   EventStore \<Rightarrow> EventStore" where
  "initial_bootstrap strptime pyfloat now retention_hours ba_file okx_file s =
     (let cutoff = now - real_of_int (retention_hours * 3600)
      in append_recent cutoff (initial_load_from_csv strptime pyfloat okx_file)
           (append_recent cutoff (initial_load_from_csv strptime pyfloat ba_file) s))"

text \<open>The start of the hub (\<^verbatim>\<open>__main__\<close>) up to the first poll of the tailers: the
  module-level \<^verbatim>\<open>STORE = EventStore()\<close>, \<^verbatim>\<open>initial_bootstrap\<close>, then each
  fresh tailer reads its journal once. The tailers are two threads; the Binance one is
  taken first (with one journal absent the order does not matter).\<close>

definition hub_boot ::
  "(string \<Rightarrow> int option) \<Rightarrow> (string \<Rightarrow> real option) \<Rightarrow> real \<Rightarrow>
   ((nat \<times> nat) \<times> string list list) option \<Rightarrow> ((nat \<times> nat) \<times> string list list) option \<Rightarrow>
   EventStore" where
  "hub_boot strptime pyfloat now ba_file okx_file =
     (let s1 = initial_bootstrap strptime pyfloat now RETENTION_HOURS_DEFAULT ba_file okx_file
                 (EventStore_init RETENTION_HOURS_DEFAULT);
          s2 = snd (read_new_lines strptime pyfloat ba_file (CsvTailer_init, s1))
      in snd (read_new_lines strptime pyfloat okx_file (CsvTailer_init, s2)))"

section \<open>Queries on the store\<close>

text \<open>\<^verbatim>\<open>to_public_dict\<close>. The key \<^verbatim>\<open>"datetime"\<close> holds the timestamp rendered by
  \<^verbatim>\<open>strftime("%Y-%m-%d %H:%M:%S")\<close>; the model keeps the value rendered. Where the
  text is read back (\<^verbatim>\<open>strptime\<close> with the same format, in the stream generator)
  the model takes the value, the two conversions being inverse to each other on
  timestamps without a sub-second part.\<close>

record public_dict =
  pd_datetime :: int
  pd_symbol :: string
  pd_exchange :: string
  pd_price :: real
  pd_direction :: string
  pd_amount :: real

definition to_public_dict :: "LiquidationEvent \<Rightarrow> public_dict" where
  "to_public_dict e =
     \<lparr>pd_datetime = timestamp e, pd_symbol = symbol e, pd_exchange = exchange e,
      pd_price = price e, pd_direction = direction e, pd_amount = amount e\<rparr>"

text \<open>\<^verbatim>\<open>EventStore.iter_since\<close>: the events newer than the cursor, in deque order.\<close>

definition iter_since :: "real \<Rightarrow> EventStore \<Rightarrow> LiquidationEvent list" where
  "iter_since since_ts s = filter (\<lambda>e. since_ts < real_of_int (timestamp e)) (events s)"

text \<open>\<^verbatim>\<open>items[-limit:]\<close>: the last \<open>limit\<close> items for a positive \<open>limit\<close>, every item
  for \<open>limit = 0\<close> (the slice \<^verbatim>\<open>[-0:]\<close> is \<^verbatim>\<open>[0:]\<close>), and the items from index
  \<open>-limit\<close> on for a negative one.\<close>

definition slice_from_neg :: "int \<Rightarrow> 'a list \<Rightarrow> 'a list" where
  "slice_from_neg limit items =
     (if limit = 0 then items
      else if 0 < limit then drop (length items - nat limit) items
      else drop (nat (- limit)) items)"

text \<open>\<^verbatim>\<open>EventStore.query\<close>. A filter that is \<open>None\<close> or an empty list is falsy and
  lets every event through; a \<^verbatim>\<open>datetime\<close> is always truthy.\<close>

definition query_keeps ::
  "int option \<Rightarrow> int option \<Rightarrow> string list option \<Rightarrow> string list option \<Rightarrow>
   string list option \<Rightarrow> LiquidationEvent \<Rightarrow> bool" where
  "query_keeps since until symbols exchanges directions e =
     (\<not> (case since of None \<Rightarrow> False | Some t \<Rightarrow> timestamp e < t)
      \<and> \<not> (case until of None \<Rightarrow> False | Some t \<Rightarrow> t < timestamp e)
      \<and> \<not> (case symbols of None \<Rightarrow> False | Some l \<Rightarrow> l \<noteq> [] \<and> symbol e \<notin> set l)
      \<and> \<not> (case exchanges of None \<Rightarrow> False | Some l \<Rightarrow> l \<noteq> [] \<and> exchange e \<notin> set l)
      \<and> \<not> (case directions of None \<Rightarrow> False | Some l \<Rightarrow> l \<noteq> [] \<and> direction e \<notin> set l))"

definition query ::
  "int option \<Rightarrow> int option \<Rightarrow> string list option \<Rightarrow> string list option \<Rightarrow>
   string list option \<Rightarrow> int option \<Rightarrow> EventStore \<Rightarrow> public_dict list" where
  "query since until symbols exchanges directions limit s =
     (let items = filter (query_keeps since until symbols exchanges directions) (events s)
      in map to_public_dict
           (case limit of None \<Rightarrow> items | Some n \<Rightarrow> slice_from_neg n items))"

subsection \<open>aggregates\<close>










subsection \<open>The totals of a window, stated on the events\<close>



text \<open>The distinct elements of a list, in the order of their first occurrence.\<close>

definition first_seen :: "'a list \<Rightarrow> 'a list" where
  "first_seen xs = rev (remdups (rev xs))"





section \<open>HTTP handlers\<close>

text \<open>\<^verbatim>\<open>datetime.utcfromtimestamp(iv) + timedelta(hours=8)\<close>: both steps raise outside
  the years 1 to 9999.\<close>

definition utcfromtimestamp_plus8h :: "int \<Rightarrow> int option" where
  "utcfromtimestamp_plus8h iv =
     (if - 62135596800 \<le> iv \<and> iv + 28800 \<le> 253402300799 then Some (iv + 28800) else None)"

text \<open>\<^verbatim>\<open>_parse_datetime_param\<close>; every exception gives \<open>None\<close>.\<close>

definition parse_datetime_param ::
  "(string \<Rightarrow> string) \<Rightarrow> (string \<Rightarrow> bool) \<Rightarrow> (string \<Rightarrow> int option) \<Rightarrow> (string \<Rightarrow> int option) \<Rightarrow>
   string option \<Rightarrow> int option" where
  "parse_datetime_param strip isdigit pyint strptime value =
     (case value of
        None \<Rightarrow> None
      | Some v0 \<Rightarrow>
          if v0 = [] then None
          else let v = strip v0
               in if isdigit v
                  then (case pyint v of
                          None \<Rightarrow> None
                        | Some iv \<Rightarrow>
                            utcfromtimestamp_plus8h
                              (if 1000000000000 < iv then iv div 1000 else iv))
                  else strptime v)"

text \<open>\<^verbatim>\<open>s.split(",")\<close>.\<close>

fun split_comma :: "string \<Rightarrow> string list" where
  "split_comma [] = [[]]"
| "split_comma (c # cs) =
     (if c = CHR '','' then [] # split_comma cs
      else (case split_comma cs of [] \<Rightarrow> [[c]] | w # ws \<Rightarrow> (c # w) # ws))"

definition csv_param :: "(string \<Rightarrow> string) \<Rightarrow> string option \<Rightarrow> string list option" where
  "csv_param strip value =
     (case value of
        None \<Rightarrow> None
      | Some v \<Rightarrow> if v = [] then None else Some (map strip (split_comma v)))"

record history_args =
  arg_since :: "string option"
  arg_until :: "string option"
  arg_symbols :: "string option"
  arg_exchanges :: "string option"
  arg_directions :: "string option"
  arg_limit :: "string option"

record http_response =
  status :: nat
  body :: "public_dict list"

text \<open>\<^verbatim>\<open>api_history\<close>. \<^verbatim>\<open>jsonify\<close> answers with status 200. The only exception that
  can leave the handler is that of \<^verbatim>\<open>int(limit)\<close> on a text that \<^verbatim>\<open>isdigit\<close> accepts
  and \<^verbatim>\<open>int\<close> does not; Flask turns an unhandled exception into status 500.\<close>

definition api_history ::
  "(string \<Rightarrow> string) \<Rightarrow> (string \<Rightarrow> bool) \<Rightarrow> (string \<Rightarrow> int option) \<Rightarrow> (string \<Rightarrow> int option) \<Rightarrow>
   history_args \<Rightarrow> EventStore \<Rightarrow> http_response" where
  "api_history strip isdigit pyint strptime args s =
     (let since = parse_datetime_param strip isdigit pyint strptime (arg_since args);
          until = parse_datetime_param strip isdigit pyint strptime (arg_until args);
          symbol_list = csv_param strip (arg_symbols args);
          exchange_list = csv_param strip (arg_exchanges args);
          direction_list = csv_param strip (arg_directions args)
      in case arg_limit args of
           None \<Rightarrow>
             \<lparr>status = 200,
              body = query since until symbol_list exchange_list direction_list None s\<rparr>
         | Some l \<Rightarrow>
             if l \<noteq> [] \<and> isdigit l
             then (case pyint l of
                     None \<Rightarrow> \<lparr>status = 500, body = []\<rparr>
                   | Some n \<Rightarrow>
                       \<lparr>status = 200,
                        body = query since until symbol_list exchange_list direction_list
                                 (Some n) s\<rparr>)
             else \<lparr>status = 200,
                   body = query since until symbol_list exchange_list direction_list None s\<rparr>)"

subsection \<open>The /stream generator\<close>

record stream_filter =
  symbol_set :: "string list option"
  exchange_set :: "string list option"
  direction_set :: "string list option"

text \<open>The three \<^verbatim>\<open>continue\<close> tests of the generator, negated: the event is delivered.\<close>

definition stream_keeps :: "(string \<Rightarrow> string) \<Rightarrow> stream_filter \<Rightarrow> LiquidationEvent \<Rightarrow> bool" where
  "stream_keeps upper f e =
     (\<not> (case symbol_set f of None \<Rightarrow> False | Some l \<Rightarrow> l \<noteq> [] \<and> upper (symbol e) \<notin> set l)
      \<and> \<not> (case exchange_set f of None \<Rightarrow> False | Some l \<Rightarrow> l \<noteq> [] \<and> exchange e \<notin> set l)
      \<and> \<not> (case direction_set f of None \<Rightarrow> False | Some l \<Rightarrow> l \<noteq> [] \<and> direction e \<notin> set l))"

datatype sse_frame = Data "public_dict list" | KeepAlive

text \<open>One round of \<^verbatim>\<open>while True\<close> in \<^verbatim>\<open>_event_stream\<close>: the frame yielded and the
  new value of \<^verbatim>\<open>last_ts\<close>.\<close>

definition sse_tick ::
  "(string \<Rightarrow> string) \<Rightarrow> stream_filter \<Rightarrow> EventStore \<Rightarrow> real \<Rightarrow> sse_frame \<times> real" where
  "sse_tick upper f s last_ts =
     (let new_items = map to_public_dict (filter (stream_keeps upper f) (iter_since last_ts s))
      in if new_items \<noteq> []
         then (Data new_items, real_of_int (pd_datetime (last new_items)))
         else (KeepAlive, last_ts))"

text \<open>A connection: the generator runs one tick per second against the store as it
  is at that moment. \<open>sse_run\<close> takes the successive states of the store and returns,
  for each tick, the frame and the cursor after it.\<close>

fun sse_run ::
  "(string \<Rightarrow> string) \<Rightarrow> stream_filter \<Rightarrow> real \<Rightarrow> EventStore list \<Rightarrow> (sse_frame \<times> real) list" where
  "sse_run upper f last_ts [] = []"
| "sse_run upper f last_ts (s # ss) =
     (let r = sse_tick upper f s last_ts in r # sse_run upper f (snd r) ss)"

definition frame_items :: "sse_frame \<Rightarrow> public_dict list" where
  "frame_items fr = (case fr of Data l \<Rightarrow> l | KeepAlive \<Rightarrow> [])"

section \<open>The adapters\<close>

text \<open>Both adapters append to their journal with \<^verbatim>\<open>csv.writer.writerow\<close>. A
  \<open>journal_row\<close> holds the six values of the row before they are rendered as text:
  the event time (written with \<^verbatim>\<open>strftime('%Y-%m-%d %H:%M:%S')\<close>), the base symbol,
  the exchange tag, the price (Binance writes \<^verbatim>\<open>f"{price:.8f}"\<close>, OKX the float),
  the direction and the amount (Binance writes \<^verbatim>\<open>f"{amount:.2f}"\<close>, OKX the
  integer).\<close>

record journal_row =
  row_time :: int
  row_symbol :: string
  row_tag :: string
  row_price :: real
  row_direction :: string
  row_amount :: real

text \<open>\<^verbatim>\<open>threshold = 10\<close>, in both adapters.\<close>

definition threshold :: real where
  "threshold = 10"

subsection \<open>Binance (liquidation\_ba.py)\<close>

text \<open>The object \<^verbatim>\<open>ev['o']\<close> and the event; a field is \<open>None\<close> when the key is
  absent. \<open>ev_E\<close> is the integer \<^verbatim>\<open>ev['E']\<close> (milliseconds).\<close>

record force_order =
  o_s :: "string option"
  o_S :: "string option"
  o_q :: "string option"
  o_l :: "string option"
  o_ap :: "string option"
  o_p :: "string option"

record force_order_event =
  ev_E :: "int option"
  ev_o :: "force_order option"

record ba_state =
  ba_journal :: "journal_row list"
  ba_total_received :: nat
  ba_written :: nat
  ba_filtered :: nat

definition ba_state_init :: ba_state where
  "ba_state_init = \<lparr>ba_journal = [], ba_total_received = 0, ba_written = 0, ba_filtered = 0\<rparr>"

text \<open>\<^verbatim>\<open>float(o.get(k1, o.get(k2, 0)))\<close> for the two values found under \<open>k1\<close> and
  \<open>k2\<close>.\<close>

definition float_get2 :: "(string \<Rightarrow> real option) \<Rightarrow> string option \<Rightarrow> string option \<Rightarrow> real option" where
  "float_get2 pyfloat v1 v2 =
     (case v1 of
        Some x \<Rightarrow> pyfloat x
      | None \<Rightarrow> (case v2 of Some y \<Rightarrow> pyfloat y | None \<Rightarrow> Some 0))"

text \<open>\<^verbatim>\<open>handle_event\<close>. The event time is
  \<^verbatim>\<open>utcfromtimestamp(ev['E'] / 1000) + timedelta(hours=8)\<close> cut to seconds by
  \<^verbatim>\<open>strftime\<close>. Any exception (a missing key, a number that does not parse) ends the
  function in its \<^verbatim>\<open>except\<close> clause with the state unchanged; they all come before
  the first write to \<^verbatim>\<open>event_counter\<close>.\<close>

definition handle_event :: "(string \<Rightarrow> real option) \<Rightarrow> force_order_event \<Rightarrow> ba_state \<Rightarrow> ba_state" where
  "handle_event pyfloat ev st =
     (case ev_E ev of
        None \<Rightarrow> st
      | Some E \<Rightarrow>
     (case utcfromtimestamp_plus8h (E div 1000) of
        None \<Rightarrow> st
      | Some event_time \<Rightarrow>
     (case ev_o ev of
        None \<Rightarrow> st
      | Some ord \<Rightarrow>
     (case o_s ord of
        None \<Rightarrow> st
      | Some sy \<Rightarrow>
     (case o_S ord of
        None \<Rightarrow> st
      | Some side \<Rightarrow>
     (case float_get2 pyfloat (o_q ord) (o_l ord) of
        None \<Rightarrow> st
      | Some qty \<Rightarrow>
     (case float_get2 pyfloat (o_ap ord) (o_p ord) of
        None \<Rightarrow> st
      | Some px \<Rightarrow>
          let amt = qty * px;
              dir = (if side = ''BUY'' then SHORT_LIQUIDATED else LONG_LIQUIDATED);
              st1 = st\<lparr>ba_total_received := ba_total_received st + 1\<rparr>
          in if threshold \<le> amt
             then st1\<lparr>ba_journal := ba_journal st1 @
                          [\<lparr>row_time = event_time, row_symbol = strip_quote_suffix sy,
                            row_tag = ''BA'', row_price = px, row_direction = dir,
                            row_amount = amt\<rparr>],
                      ba_written := ba_written st1 + 1\<rparr>
             else st1\<lparr>ba_filtered := ba_filtered st1 + 1\<rparr>)))))))"

subsection \<open>OKX (liquidation\_okx.py)\<close>

text \<open>What one \<^verbatim>\<open>session.get\<close> of the convert endpoint gives: status 200 with a body
  whose \<^verbatim>\<open>code\<close> and list of \<^verbatim>\<open>data[i]['sz']\<close> are given, another status (429
  among them), or an exception (a timeout, a network error, a body without the keys
  read). The REST service is a function from the number of requests made so far to the
  answer of the next one.\<close>

datatype rest_response = Http200 string "string list" | HttpStatus nat | RestException

record okx_state =
  conversion_cache :: "string \<rightharpoonup> real"
  okx_journal :: "journal_row list"
  rest_calls :: nat
  total_received :: nat
  written :: nat
  filtered :: nat
  conversion_failed :: nat
  api_calls :: nat
  cache_hits :: nat

definition okx_state_init :: "(string \<rightharpoonup> real) \<Rightarrow> okx_state" where
  "okx_state_init cache =
     \<lparr>conversion_cache = cache, okx_journal = [], rest_calls = 0, total_received = 0,
      written = 0, filtered = 0, conversion_failed = 0, api_calls = 0, cache_hits = 0\<rparr>"

text \<open>The size a response carries when it is a success for the adapter: status 200,
  \<^verbatim>\<open>code == '0'\<close>, a non-empty \<^verbatim>\<open>data\<close> and a \<^verbatim>\<open>data[0]['sz']\<close> that \<^verbatim>\<open>float\<close>
  reads; \<open>None\<close> for every other response.\<close>

definition rest_ok :: "(string \<Rightarrow> real option) \<Rightarrow> rest_response \<Rightarrow> real option" where
  "rest_ok pyfloat resp =
     (case resp of
        Http200 code szs \<Rightarrow> if code = ''0'' \<and> szs \<noteq> [] then pyfloat (hd szs) else None
      | HttpStatus c \<Rightarrow> None
      | RestException \<Rightarrow> None)"

text \<open>The outcome of \<^verbatim>\<open>convert_contract_coin\<close>: the converted size, \<^verbatim>\<open>None\<close> after three
  failed attempts, or an exception that leaves the function (\<^verbatim>\<open>float(sz)\<close> on the
  cache-hit path).\<close>

datatype conv_result = Converted real | ConvFailed | ConvRaised

text \<open>The loop \<^verbatim>\<open>for retry in range(3)\<close>, with the number of attempts left. Every
  path through the body other than the \<^verbatim>\<open>return converted_sz\<close> goes on to the next
  attempt: a body with another code or no data, a status other than 200, and every
  exception, those of \<^verbatim>\<open>float\<close> and of the division by \<^verbatim>\<open>float(sz) = 0\<close> included.\<close>

fun convert_attempts ::
  "(string \<Rightarrow> real option) \<Rightarrow> (nat \<Rightarrow> rest_response) \<Rightarrow> string \<Rightarrow> string \<Rightarrow> nat \<Rightarrow> okx_state \<Rightarrow>
   conv_result \<times> okx_state" where
  "convert_attempts pyfloat rest instId sz 0 st =
     (ConvFailed, st\<lparr>conversion_failed := conversion_failed st + 1\<rparr>)"
| "convert_attempts pyfloat rest instId sz (Suc n) st =
     (let st1 = st\<lparr>rest_calls := rest_calls st + 1\<rparr>
      in case rest (rest_calls st) of
           Http200 code szs \<Rightarrow>
             if code = ''0'' \<and> szs \<noteq> []
             then (case pyfloat (hd szs) of
                     None \<Rightarrow> convert_attempts pyfloat rest instId sz n st1
                   | Some r \<Rightarrow>
                       (case pyfloat sz of
                          None \<Rightarrow> convert_attempts pyfloat rest instId sz n st1
                        | Some z \<Rightarrow>
                            if z = 0 then convert_attempts pyfloat rest instId sz n st1
                            else (Converted (z * (r / z)),
                                  st1\<lparr>conversion_cache := (conversion_cache st1)(instId \<mapsto> r / z)\<rparr>)))
             else convert_attempts pyfloat rest instId sz n st1
         | HttpStatus c \<Rightarrow> convert_attempts pyfloat rest instId sz n st1
         | RestException \<Rightarrow> convert_attempts pyfloat rest instId sz n st1)"

definition convert_contract_coin ::
  "(string \<Rightarrow> real option) \<Rightarrow> (nat \<Rightarrow> rest_response) \<Rightarrow> string \<Rightarrow> string \<Rightarrow> okx_state \<Rightarrow>
   conv_result \<times> okx_state" where
  "convert_contract_coin pyfloat rest instId sz st =
     (case conversion_cache st instId of
        Some conversion_ratio \<Rightarrow>
          (case pyfloat sz of
             None \<Rightarrow> (ConvRaised, st\<lparr>cache_hits := cache_hits st + 1\<rparr>)
           | Some z \<Rightarrow> (Converted (z * conversion_ratio), st\<lparr>cache_hits := cache_hits st + 1\<rparr>))
      | None \<Rightarrow> convert_attempts pyfloat rest instId sz 3 (st\<lparr>api_calls := api_calls st + 1\<rparr>))"

text \<open>Python's \<^verbatim>\<open>round(x)\<close>: the nearest integer, a tie going to the even one.\<close>

definition py_round :: "real \<Rightarrow> int" where
  "py_round x =
     (let f = \<lfloor>x\<rfloor>; d = x - real_of_int f
      in if d < 1 / 2 then f else if 1 / 2 < d then f + 1 else if even f then f else f + 1)"

record okx_detail =
  d_ts :: "string option"
  d_side :: "string option"
  d_posSide :: "string option"
  d_bkPx :: "string option"
  d_sz :: "string option"

text \<open>\<^verbatim>\<open>amount = round(float(converted_sz) * float(bk_px))\<close>.\<close>

definition okx_amount :: "real \<Rightarrow> real \<Rightarrow> int" where
  "okx_amount converted_sz bk_px = py_round (converted_sz * bk_px)"

text \<open>The end of \<^verbatim>\<open>handle_detail\<close>, from the threshold test on.\<close>

definition okx_write :: "int \<Rightarrow> string \<Rightarrow> real \<Rightarrow> string \<Rightarrow> int \<Rightarrow> okx_state \<Rightarrow> okx_state" where
  "okx_write event_time base_symbol bk_px dir amt st =
     (if threshold \<le> real_of_int amt
      then st\<lparr>okx_journal := okx_journal st @
                 [\<lparr>row_time = event_time, row_symbol = base_symbol, row_tag = ''OKX'',
                   row_price = bk_px, row_direction = dir, row_amount = real_of_int amt\<rparr>],
              written := written st + 1\<rparr>
      else st\<lparr>filtered := filtered st + 1\<rparr>)"

text \<open>\<^verbatim>\<open>handle_detail\<close>. The event time is
  \<^verbatim>\<open>utcfromtimestamp(int(detail['ts']) / 1000) + timedelta(hours=8)\<close> cut to seconds;
  \<^verbatim>\<open>instId.split('-')[0]\<close> is the text before the first hyphen. An exception ends the
  function in its \<^verbatim>\<open>except\<close> clause, with the state as it was when raised.\<close>

definition handle_detail ::
  "(string \<Rightarrow> int option) \<Rightarrow> (string \<Rightarrow> real option) \<Rightarrow> (nat \<Rightarrow> rest_response) \<Rightarrow> string \<Rightarrow>
   okx_detail \<Rightarrow> okx_state \<Rightarrow> okx_state" where
  "handle_detail pyint pyfloat rest instId detail st =
     (case d_ts detail of
        None \<Rightarrow> st
      | Some ts_text \<Rightarrow>
     (case pyint ts_text of
        None \<Rightarrow> st
      | Some ts_ms \<Rightarrow>
     (case utcfromtimestamp_plus8h (ts_ms div 1000) of
        None \<Rightarrow> st
      | Some event_time \<Rightarrow>
     (case d_side detail of
        None \<Rightarrow> st
      | Some side \<Rightarrow>
     (case d_posSide detail of
        None \<Rightarrow> st
      | Some pos_side \<Rightarrow>
     (case d_sz detail of
        None \<Rightarrow> st
      | Some sz \<Rightarrow>
          let bk_text = (case d_bkPx detail of None \<Rightarrow> [] | Some b \<Rightarrow> b)
          in if bk_text = [] then st
             else (case pyfloat bk_text of
                     None \<Rightarrow> st
                   | Some bk_px \<Rightarrow>
                       (case convert_contract_coin pyfloat rest instId sz
                               (st\<lparr>total_received := total_received st + 1\<rparr>) of
                          (Converted converted_sz, st2) \<Rightarrow>
                            if side = ''sell'' \<and> pos_side = ''long''
                            then okx_write event_time (takeWhile (\<lambda>c. c \<noteq> CHR ''-'') instId) bk_px
                                   LONG_LIQUIDATED (okx_amount converted_sz bk_px) st2
                            else if side = ''buy'' \<and> pos_side = ''short''
                            then okx_write event_time (takeWhile (\<lambda>c. c \<noteq> CHR ''-'') instId) bk_px
                                   SHORT_LIQUIDATED (okx_amount converted_sz bk_px) st2
                            else st2
                        | (ConvFailed, st2) \<Rightarrow> st2
                        | (ConvRaised, st2) \<Rightarrow> st2))))))))"

section \<open>Library functions on the texts the adapters write\<close>

text \<open>Instances of the library parameters, used to run the model on concrete data. They
  agree with Python on the inputs they accept: \<open>float_dec\<close> and \<open>int_dec\<close> read a
  plain decimal numeral (an optional minus sign, digits, for \<open>float_dec\<close> an optional
  point followed by digits), \<open>strptime_ymdhms\<close> the zero-padded form
  \<^verbatim>\<open>YYYY-MM-DD HH:MM:SS\<close> that \<^verbatim>\<open>strftime\<close> writes. On other texts they give
  \<open>None\<close>, where Python accepts some more (exponents, blanks, one-digit fields).\<close>

definition digit_of :: "char \<Rightarrow> nat option" where
  "digit_of c =
     (let n = (of_char c :: nat) in if 48 \<le> n \<and> n \<le> 57 then Some (n - 48) else None)"

fun digits_val :: "nat \<Rightarrow> string \<Rightarrow> nat option" where
  "digits_val acc [] = Some acc"
| "digits_val acc (c # cs) =
     (case digit_of c of None \<Rightarrow> None | Some d \<Rightarrow> digits_val (10 * acc + d) cs)"

definition nat_dec :: "string \<Rightarrow> nat option" where
  "nat_dec s = (if s = [] then None else digits_val 0 s)"

definition int_dec :: "string \<Rightarrow> int option" where
  "int_dec s =
     (case s of
        [] \<Rightarrow> None
      | c # r \<Rightarrow>
          if c = CHR ''-'' then map_option (\<lambda>n. - int n) (nat_dec r)
          else map_option int (nat_dec s))"

definition ufloat_dec :: "string \<Rightarrow> real option" where
  "ufloat_dec s =
     (let ip = takeWhile (\<lambda>c. c \<noteq> CHR ''.'') s
      in case nat_dec ip of
           None \<Rightarrow> None
         | Some i \<Rightarrow>
             if length ip = length s then Some (real i)
             else (case nat_dec (drop (length ip + 1) s) of
                     None \<Rightarrow> None
                   | Some f \<Rightarrow> Some (real i + real f / 10 ^ (length s - length ip - 1))))"

definition float_dec :: "string \<Rightarrow> real option" where
  "float_dec s =
     (case s of
        [] \<Rightarrow> None
      | c # r \<Rightarrow>
          if c = CHR ''-'' then map_option uminus (ufloat_dec r) else ufloat_dec s)"

definition is_leap :: "int \<Rightarrow> bool" where
  "is_leap y = (y mod 4 = 0 \<and> (y mod 100 \<noteq> 0 \<or> y mod 400 = 0))"

definition days_in_month :: "int \<Rightarrow> int \<Rightarrow> int" where
  "days_in_month y m =
     (if m = 2 then (if is_leap y then 29 else 28)
      else if m = 4 \<or> m = 6 \<or> m = 9 \<or> m = 11 then 30 else 31)"

text \<open>The number of days from 1970-01-01 to the given date of the proleptic Gregorian
  calendar.\<close>

definition days_from_civil :: "int \<Rightarrow> int \<Rightarrow> int \<Rightarrow> int" where
  "days_from_civil y m d =
     (let y1 = (if m \<le> 2 then y - 1 else y);
          era = y1 div 400;
          yoe = y1 - era * 400;
          doy = (153 * (if 2 < m then m - 3 else m + 9) + 2) div 5 + d - 1;
          doe = yoe * 365 + yoe div 4 - yoe div 100 + doy
      in era * 146097 + doe - 719468)"

definition field_dec :: "nat \<Rightarrow> nat \<Rightarrow> string \<Rightarrow> int option" where
  "field_dec pos len s = map_option int (nat_dec (take len (drop pos s)))"

definition strptime_ymdhms :: "string \<Rightarrow> int option" where
  "strptime_ymdhms s =
     (if length s = 19 \<and> s ! 4 = CHR ''-'' \<and> s ! 7 = CHR ''-'' \<and> s ! 10 = CHR '' ''
         \<and> s ! 13 = CHR '':'' \<and> s ! 16 = CHR '':''
      then (case (field_dec 0 4 s, field_dec 5 2 s, field_dec 8 2 s,
                  field_dec 11 2 s, field_dec 14 2 s, field_dec 17 2 s) of
              (Some y, Some m, Some d, Some h, Some mi, Some sec) \<Rightarrow>
                if 1 \<le> y \<and> 1 \<le> m \<and> m \<le> 12 \<and> 1 \<le> d \<and> d \<le> days_in_month y m
                   \<and> h < 24 \<and> mi < 60 \<and> sec < 60
                then Some (days_from_civil y m d * 86400 + h * 3600 + mi * 60 + sec)
                else None
            | _ \<Rightarrow> None)
      else None)"

text \<open>\<^verbatim>\<open>str.strip\<close>, \<^verbatim>\<open>str.isdigit\<close> and \<^verbatim>\<open>str.upper\<close> on ASCII text.\<close>

definition is_space :: "char \<Rightarrow> bool" where
  "is_space c = (c = CHR '' '' \<or> c = CHR 0x09 \<or> c = CHR 0x0A \<or> c = CHR 0x0B \<or> c = CHR 0x0C
                 \<or> c = CHR 0x0D)"

definition strip_ws :: "string \<Rightarrow> string" where
  "strip_ws s = rev (dropWhile is_space (rev (dropWhile is_space s)))"

definition isdigit_ascii :: "string \<Rightarrow> bool" where
  "isdigit_ascii s = (s \<noteq> [] \<and> list_all (\<lambda>c. digit_of c \<noteq> None) s)"

definition upper_char :: "char \<Rightarrow> char" where
  "upper_char c =
     (let n = (of_char c :: nat) in if 97 \<le> n \<and> n \<le> 122 then char_of (n - 32) else c)"

definition upper_ascii :: "string \<Rightarrow> string" where
  "upper_ascii s = map upper_char s"

section \<open>Example data\<close>

text \<open>A REST service that answers the first request with
  \<^verbatim>\<open>{"code": "0", "data": [{"sz": "0.1"}]}\<close> and fails afterwards, and one that always
  fails.\<close>

definition rest_s3 :: "nat \<Rightarrow> rest_response" where
  "rest_s3 n = (if n = 0 then Http200 ''0'' [''0.1''] else RestException)"

definition rest_down :: "nat \<Rightarrow> rest_response" where
  "rest_down n = RestException"

text \<open>An OKX detail stamped 1700000000000 ms with the given side, position side,
  bankruptcy price and size.\<close>

definition mk_detail :: "string \<Rightarrow> string \<Rightarrow> string \<Rightarrow> string \<Rightarrow> okx_detail" where
  "mk_detail side pos_side bk sz =
     \<lparr>d_ts = Some ''1700000000000'', d_side = Some side, d_posSide = Some pos_side,
      d_bkPx = Some bk, d_sz = Some sz\<rparr>"

text \<open>A cache that knows the contract \<^verbatim>\<open>ETH-USDT-SWAP\<close> with the given ratio.\<close>

definition eth_cache :: "real \<Rightarrow> (string \<rightharpoonup> real)" where
  "eth_cache ratio = [''ETH-USDT-SWAP'' \<mapsto> ratio]"

text \<open>A Binance \<^verbatim>\<open>forceOrder\<close> event with the keys \<^verbatim>\<open>E\<close>, \<^verbatim>\<open>o.s\<close>, \<^verbatim>\<open>o.S\<close>,
  \<^verbatim>\<open>o.q\<close> and \<^verbatim>\<open>o.ap\<close>.\<close>

definition mk_force_order :: "int \<Rightarrow> string \<Rightarrow> string \<Rightarrow> string \<Rightarrow> string \<Rightarrow> force_order_event" where
  "mk_force_order E sy side q ap =
     \<lparr>ev_E = Some E,
      ev_o = Some \<lparr>o_s = Some sy, o_S = Some side, o_q = Some q, o_l = None,
                   o_ap = Some ap, o_p = None\<rparr>\<rparr>"

text \<open>A request to \<^verbatim>\<open>/history\<close> with \<^verbatim>\<open>since=yesterday\<close> and \<^verbatim>\<open>limit=ten\<close>.\<close>

definition args_unparseable :: history_args where
  "args_unparseable =
     \<lparr>arg_since = Some ''yesterday'', arg_until = None, arg_symbols = None,
      arg_exchanges = None, arg_directions = None, arg_limit = Some ''ten''\<rparr>"

text \<open>Scenario S6: a store holding three BTC events stamped 100, 200 and 300 and one ETH
  event, and the filter of \<^verbatim>\<open>/stream?symbols=BTC\<close>.\<close>

definition store_s6 :: EventStore where
  "store_s6 =
     (EventStore_init 48)\<lparr>events :=
        [mk_event 100 ''BTC'' ''Binance'' 40000 LONG_LIQUIDATED 20000,
         mk_event 200 ''ETH'' ''OKX'' 2000 LONG_LIQUIDATED 200,
         mk_event 200 ''BTC'' ''OKX'' 40100 SHORT_LIQUIDATED 500,
         mk_event 300 ''BTC'' ''Binance'' 40200 LONG_LIQUIDATED 700]\<rparr>"

text \<open>The same store earlier on, when only the first event had arrived.\<close>

definition store_s6_early :: EventStore where
  "store_s6_early =
     (EventStore_init 48)\<lparr>events :=
        [mk_event 100 ''BTC'' ''Binance'' 40000 LONG_LIQUIDATED 20000]\<rparr>"

definition filter_btc :: stream_filter where
  "filter_btc = \<lparr>symbol_set = Some [''BTC''], exchange_set = None, direction_set = None\<rparr>"


text \<open>A Binance journal: the header, a row of 2020-01-01 and the row the adapter writes
  in scenario S1 (2023-11-15 06:13:20 on the UTC+8 clock, which is 1700028800).\<close>

definition journal_ba :: "((nat \<times> nat) \<times> string list list) option" where
  "journal_ba =
     Some ((1, 1),
       [CSV_HEADER,
        [''2020-01-01 00:00:00'', ''ETH'', ''BA'', ''2000.00000000'', LONG_LIQUIDATED, ''200.00''],
        [''2023-11-15 06:13:20'', ''BTC'', ''BA'', ''40000.00000000'', LONG_LIQUIDATED,
         ''20000.00'']])"


section \<open>Retention after prune\<close>







section \<open>Facts about the library instances\<close>

lemma float_dec_values:
  "float_dec ''0.1'' = Some (1 / 10)"
  "float_dec ''10'' = Some 10"
  "float_dec ''50'' = Some 50"
  "float_dec ''2000'' = Some 2000"
  "float_dec ''2100'' = Some 2100"
  "float_dec ''1'' = Some 1"
  "float_dec ''21'' = Some 21"
  "float_dec ''-1'' = Some (- 1)"
  "float_dec ''-20'' = Some (- 20)"
  "float_dec ''0.5'' = Some (1 / 2)"
  "float_dec ''40000'' = Some 40000"
  "float_dec ''40000.00000000'' = Some 40000"
  "float_dec ''20000.00'' = Some 20000"
  "float_dec ''0.0001'' = Some (1 / 10000)"
  by (simp_all add: float_dec_def ufloat_dec_def nat_dec_def digit_of_def)

lemma int_dec_values:
  "int_dec ''1700000000000'' = Some 1700000000000"
  by (simp add: int_dec_def nat_dec_def digit_of_def)

lemma strptime_2023: "strptime_ymdhms ''2023-11-15 06:13:20'' = Some 1700028800"
  by code_simp

lemma strptime_2020: "strptime_ymdhms ''2020-01-01 00:00:00'' = Some 1577836800"
  by code_simp

section \<open>The store keeps what is appended\<close>




section \<open>Exchange tags on journal rows\<close>



section \<open>The OKX adapter\<close>

lemma convert_attempts_journal:
  "okx_journal (snd (convert_attempts pyfloat rest instId sz n st)) = okx_journal st"
  by (induction n arbitrary: st) (auto split: rest_response.splits option.splits simp: Let_def)

lemma convert_journal:
  "convert_contract_coin pyfloat rest instId sz st = (res, st2) \<Longrightarrow> okx_journal st2 = okx_journal st"
proof -
  assume a: "convert_contract_coin pyfloat rest instId sz st = (res, st2)"
  have "okx_journal (snd (convert_contract_coin pyfloat rest instId sz st)) = okx_journal st"
    by (auto simp: convert_contract_coin_def convert_attempts_journal split: option.splits)
  with a show ?thesis by simp
qed

lemma mk_detail_sel:
  "d_side (mk_detail side pos_side bk sz) = Some side"
  "d_posSide (mk_detail side pos_side bk sz) = Some pos_side"
  by (simp_all add: mk_detail_def)

lemma okx_state_init_journal: "okx_journal (okx_state_init cache) = []"
  by (simp add: okx_state_init_def)

lemma okx_s3_first:
  "handle_detail int_dec float_dec rest_s3 ''ETH-USDT-SWAP'' (mk_detail ''sell'' ''long'' ''2000'' ''10'')
     (okx_state_init Map.empty) =
   \<lparr>conversion_cache = eth_cache (1 / 100),
    okx_journal = [\<lparr>row_time = 1700028800, row_symbol = ''ETH'', row_tag = ''OKX'',
                    row_price = 2000, row_direction = LONG_LIQUIDATED, row_amount = 200\<rparr>],
    rest_calls = 1, total_received = 1, written = 1, filtered = 0, conversion_failed = 0,
    api_calls = 1, cache_hits = 0\<rparr>"
  by (simp add: handle_detail_def mk_detail_def okx_state_init_def float_dec_values int_dec_values
      utcfromtimestamp_plus8h_def convert_contract_coin_def rest_s3_def okx_write_def okx_amount_def
      py_round_def threshold_def eth_cache_def numeral_3_eq_3)

text \<open>A detail for a cached contract, with the REST service down: the journal after it.\<close>

lemma okx_cached_long:
  "okx_journal (handle_detail int_dec float_dec rest_down ''ETH-USDT-SWAP''
      (mk_detail ''sell'' ''long'' ''2100'' ''50'') (okx_state_init (eth_cache (1 / 100)))) =
   [\<lparr>row_time = 1700028800, row_symbol = ''ETH'', row_tag = ''OKX'',
     row_price = 2100, row_direction = LONG_LIQUIDATED, row_amount = 1050\<rparr>]"
  by (simp add: handle_detail_def mk_detail_def okx_state_init_def float_dec_values int_dec_values
      utcfromtimestamp_plus8h_def convert_contract_coin_def okx_write_def okx_amount_def
      py_round_def threshold_def eth_cache_def)

lemma okx_cached_short:
  "okx_journal (handle_detail int_dec float_dec rest_down ''ETH-USDT-SWAP''
      (mk_detail ''buy'' ''short'' ''2100'' ''50'') (okx_state_init (eth_cache (1 / 100)))) =
   [\<lparr>row_time = 1700028800, row_symbol = ''ETH'', row_tag = ''OKX'',
     row_price = 2100, row_direction = SHORT_LIQUIDATED, row_amount = 1050\<rparr>]"
  by (simp add: handle_detail_def mk_detail_def okx_state_init_def float_dec_values int_dec_values
      utcfromtimestamp_plus8h_def convert_contract_coin_def okx_write_def okx_amount_def
      py_round_def threshold_def eth_cache_def)

lemma okx_cached_buy_long:
  "okx_journal (handle_detail int_dec float_dec rest_down ''ETH-USDT-SWAP''
      (mk_detail ''buy'' ''long'' ''2000'' ''10'') (okx_state_init (eth_cache (1 / 100)))) = []"
  by (simp add: handle_detail_def mk_detail_def okx_state_init_def float_dec_values int_dec_values
      utcfromtimestamp_plus8h_def convert_contract_coin_def okx_write_def okx_amount_def
      py_round_def threshold_def eth_cache_def)

subsection \<open>Direction policy\<close>

text \<open>
  Claim C6. Whatever the detail, the cache and the REST service, \<^verbatim>\<open>handle_detail\<close>
  writes at most one row. With \<^verbatim>\<open>side = sell\<close> and \<^verbatim>\<open>posSide = long\<close> a row written
  has direction \<open>LONG_LIQUIDATED\<close>; with \<^verbatim>\<open>side = buy\<close> and \<^verbatim>\<open>posSide = short\<close> it has
  direction \<open>SHORT_LIQUIDATED\<close>; with any other pair, or a missing one, the journal is left as
  it was, so the hub, which only reads the journal, gets no event.
\<close>

theorem okx_direction_policy:
  "(d_side detail = Some ''sell'' \<and> d_posSide detail = Some ''long'' \<longrightarrow>
      okx_journal (handle_detail pyint pyfloat rest instId detail st) = okx_journal st
      \<or> (\<exists>r. okx_journal (handle_detail pyint pyfloat rest instId detail st) = okx_journal st @ [r]
              \<and> row_direction r = LONG_LIQUIDATED))
   \<and> (d_side detail = Some ''buy'' \<and> d_posSide detail = Some ''short'' \<longrightarrow>
      okx_journal (handle_detail pyint pyfloat rest instId detail st) = okx_journal st
      \<or> (\<exists>r. okx_journal (handle_detail pyint pyfloat rest instId detail st) = okx_journal st @ [r]
              \<and> row_direction r = SHORT_LIQUIDATED))
   \<and> (\<not> (d_side detail = Some ''sell'' \<and> d_posSide detail = Some ''long'')
      \<and> \<not> (d_side detail = Some ''buy'' \<and> d_posSide detail = Some ''short'') \<longrightarrow>
      okx_journal (handle_detail pyint pyfloat rest instId detail st) = okx_journal st)"
  by (auto simp: handle_detail_def okx_write_def Let_def dest!: convert_journal
           split: option.splits prod.splits conv_result.splits)

text \<open>The three cases on a cached contract: a long and a short liquidation of 1050 USDT
  are written with their direction, and scenario S4 (\<^verbatim>\<open>side = buy\<close>,
  \<^verbatim>\<open>posSide = long\<close>, 200 USDT) writes nothing.\<close>

theorem okx_direction_policy_witness:
  "map row_direction (okx_journal (handle_detail int_dec float_dec rest_down ''ETH-USDT-SWAP''
      (mk_detail ''sell'' ''long'' ''2100'' ''50'') (okx_state_init (eth_cache (1 / 100)))))
     = [LONG_LIQUIDATED]
   \<and> map row_direction (okx_journal (handle_detail int_dec float_dec rest_down ''ETH-USDT-SWAP''
      (mk_detail ''buy'' ''short'' ''2100'' ''50'') (okx_state_init (eth_cache (1 / 100)))))
     = [SHORT_LIQUIDATED]
   \<and> \<not> (d_side (mk_detail ''buy'' ''long'' ''2000'' ''10'') = Some ''sell''
         \<and> d_posSide (mk_detail ''buy'' ''long'' ''2000'' ''10'') = Some ''long'')
   \<and> \<not> (d_side (mk_detail ''buy'' ''long'' ''2000'' ''10'') = Some ''buy''
         \<and> d_posSide (mk_detail ''buy'' ''long'' ''2000'' ''10'') = Some ''short'')
   \<and> okx_journal (handle_detail int_dec float_dec rest_down ''ETH-USDT-SWAP''
      (mk_detail ''buy'' ''long'' ''2000'' ''10'') (okx_state_init (eth_cache (1 / 100))))
     = okx_journal (okx_state_init (eth_cache (1 / 100)))"
  using okx_direction_policy [of "mk_detail ''sell'' ''long'' ''2100'' ''50''" int_dec float_dec
          rest_down "''ETH-USDT-SWAP''" "okx_state_init (eth_cache (1 / 100))"]
        okx_direction_policy [of "mk_detail ''buy'' ''short'' ''2100'' ''50''" int_dec float_dec
          rest_down "''ETH-USDT-SWAP''" "okx_state_init (eth_cache (1 / 100))"]
        okx_direction_policy [of "mk_detail ''buy'' ''long'' ''2000'' ''10''" int_dec float_dec
          rest_down "''ETH-USDT-SWAP''" "okx_state_init (eth_cache (1 / 100))"]
  by (simp add: okx_cached_long okx_cached_short okx_cached_buy_long mk_detail_sel
      okx_state_init_journal)

subsection \<open>Contract conversion and its cache\<close>

lemma convert_attempts_first_success:
  "pyfloat sz = Some z \<Longrightarrow> z \<noteq> 0 \<Longrightarrow> k < n
   \<Longrightarrow> rest_ok pyfloat (rest (rest_calls st + k)) = Some r
   \<Longrightarrow> (\<And>j. j < k \<Longrightarrow> rest_ok pyfloat (rest (rest_calls st + j)) = None)
   \<Longrightarrow> convert_attempts pyfloat rest instId sz n st =
         (Converted (z * (r / z)),
          st\<lparr>rest_calls := rest_calls st + k + 1,
             conversion_cache := (conversion_cache st)(instId \<mapsto> r / z)\<rparr>)"
proof (induction n arbitrary: st k)
  case 0
  then show ?case by simp
next
  case (Suc n)
  show ?case
  proof (cases k)
    case 0
    with Suc.prems show ?thesis
      by (auto simp: rest_ok_def fun_upd_def Let_def split: rest_response.splits if_splits)
  next
    case (Suc k')
    let ?st1 = "st\<lparr>rest_calls := rest_calls st + 1\<rparr>"
    have fail: "rest_ok pyfloat (rest (rest_calls st)) = None"
      using Suc.prems(5) [of 0] Suc by simp
    have step: "convert_attempts pyfloat rest instId sz (Suc n) st
                = convert_attempts pyfloat rest instId sz n ?st1"
      using fail by (auto simp: rest_ok_def split: rest_response.splits if_splits)
    have ih: "convert_attempts pyfloat rest instId sz n ?st1 =
         (Converted (z * (r / z)),
          ?st1\<lparr>rest_calls := rest_calls ?st1 + k' + 1,
             conversion_cache := (conversion_cache ?st1)(instId \<mapsto> r / z)\<rparr>)"
    proof (rule Suc.IH)
      show "pyfloat sz = Some z" by fact
      show "z \<noteq> 0" by fact
      show "k' < n" using Suc.prems(3) Suc by simp
      show "rest_ok pyfloat (rest (rest_calls ?st1 + k')) = Some r"
        using Suc.prems(4) Suc by simp
      show "rest_ok pyfloat (rest (rest_calls ?st1 + j)) = None" if "j < k'" for j
        using Suc.prems(5) [of "Suc j"] Suc that by simp
    qed
    have eq: "?st1\<lparr>rest_calls := rest_calls ?st1 + k' + 1,
                 conversion_cache := (conversion_cache ?st1)(instId \<mapsto> r / z)\<rparr>
              = st\<lparr>rest_calls := rest_calls st + k + 1,
                   conversion_cache := (conversion_cache st)(instId \<mapsto> r / z)\<rparr>"
      using Suc by simp
    show ?thesis by (simp only: step ih eq)
  qed
qed

lemma convert_attempts_cache_other:
  "conversion_cache st key = Some v \<Longrightarrow> key \<noteq> instId
   \<Longrightarrow> conversion_cache (snd (convert_attempts pyfloat rest instId sz n st)) key = Some v"
  by (induction n arbitrary: st) (auto split: rest_response.splits option.splits simp: Let_def)

lemma convert_cache_permanent:
  "conversion_cache st key = Some v
   \<Longrightarrow> conversion_cache (snd (convert_contract_coin pyfloat rest instId sz st)) key = Some v"
  by (cases "key = instId")
     (auto simp: convert_contract_coin_def convert_attempts_cache_other split: option.splits)

lemma convert_hit:
  "conversion_cache st instId = Some ratio \<Longrightarrow> pyfloat sz = Some z
   \<Longrightarrow> convert_contract_coin pyfloat rest instId sz st =
         (Converted (z * ratio), st\<lparr>cache_hits := cache_hits st + 1\<rparr>)"
  by (simp add: convert_contract_coin_def)

lemma convert_miss:
  assumes "conversion_cache st instId = None" and "pyfloat sz = Some z" and "z \<noteq> 0"
    and "k < 3" and "rest_ok pyfloat (rest (rest_calls st + k)) = Some r"
    and "\<forall>j<k. rest_ok pyfloat (rest (rest_calls st + j)) = None"
  shows "convert_contract_coin pyfloat rest instId sz st =
           (Converted (z * (r / z)),
            st\<lparr>api_calls := api_calls st + 1, rest_calls := rest_calls st + k + 1,
               conversion_cache := (conversion_cache st)(instId \<mapsto> r / z)\<rparr>)"
proof -
  let ?st0 = "st\<lparr>api_calls := api_calls st + 1\<rparr>"
  have "convert_attempts pyfloat rest instId sz 3 ?st0 =
         (Converted (z * (r / z)),
          ?st0\<lparr>rest_calls := rest_calls ?st0 + k + 1,
             conversion_cache := (conversion_cache ?st0)(instId \<mapsto> r / z)\<rparr>)"
    using assms by (intro convert_attempts_first_success) simp_all
  then show ?thesis using assms(1) by (simp add: convert_contract_coin_def)
qed

lemma okx_s3_second:
  "handle_detail int_dec float_dec rest_s3 ''ETH-USDT-SWAP'' (mk_detail ''sell'' ''long'' ''2100'' ''50'')
     (handle_detail int_dec float_dec rest_s3 ''ETH-USDT-SWAP''
        (mk_detail ''sell'' ''long'' ''2000'' ''10'') (okx_state_init Map.empty)) =
   \<lparr>conversion_cache = eth_cache (1 / 100),
    okx_journal = [\<lparr>row_time = 1700028800, row_symbol = ''ETH'', row_tag = ''OKX'',
                    row_price = 2000, row_direction = LONG_LIQUIDATED, row_amount = 200\<rparr>,
                   \<lparr>row_time = 1700028800, row_symbol = ''ETH'', row_tag = ''OKX'',
                    row_price = 2100, row_direction = LONG_LIQUIDATED, row_amount = 1050\<rparr>],
    rest_calls = 1, total_received = 2, written = 2, filtered = 0, conversion_failed = 0,
    api_calls = 1, cache_hits = 1\<rparr>"
  unfolding okx_s3_first
  by (simp add: handle_detail_def mk_detail_def float_dec_values int_dec_values
      utcfromtimestamp_plus8h_def convert_contract_coin_def okx_write_def okx_amount_def
      py_round_def threshold_def eth_cache_def)

text \<open>
  Claim C2. (1) For a contract in the cache, \<^verbatim>\<open>convert_contract_coin\<close> returns
  \<open>sz * cache[instId]\<close> and changes nothing but the hit counter: no request is made.
  (2) On a miss, when one of the three attempts gets a successful response carrying the
  size \<open>r\<close> (status 200, code 0, the earlier attempts having failed), the ratio
  \<open>r / sz\<close> is stored under the contract and \<open>sz * (r / sz)\<close> returned; a later call
  for the same contract, with any size and any behaviour of the REST service, returns
  that size times the stored ratio and makes no request. (3) No call removes or changes
  an entry of the cache. (4) Scenario S3: with an empty cache and a service answering
  0.1 to the first request, the push \<^verbatim>\<open>sz=10, bkPx=2000\<close> is journaled with amount 200
  and the push \<^verbatim>\<open>sz=50, bkPx=2100\<close> with amount 1050, one request having been made in
  all.
\<close>

theorem convert_contract_coin_cache:
  "(conversion_cache st instId = Some ratio \<and> pyfloat sz = Some z \<longrightarrow>
      convert_contract_coin pyfloat rest instId sz st =
        (Converted (z * ratio), st\<lparr>cache_hits := cache_hits st + 1\<rparr>))
   \<and> (conversion_cache st instId = None \<and> pyfloat sz = Some z \<and> z \<noteq> 0 \<and> k < 3
       \<and> rest_ok pyfloat (rest (rest_calls st + k)) = Some r
       \<and> (\<forall>j<k. rest_ok pyfloat (rest (rest_calls st + j)) = None) \<longrightarrow>
      fst (convert_contract_coin pyfloat rest instId sz st) = Converted (z * (r / z))
      \<and> conversion_cache (snd (convert_contract_coin pyfloat rest instId sz st))
          = (conversion_cache st)(instId \<mapsto> r / z)
      \<and> rest_calls (snd (convert_contract_coin pyfloat rest instId sz st)) = rest_calls st + k + 1
      \<and> (pyfloat sz2 = Some z2 \<longrightarrow>
            fst (convert_contract_coin pyfloat rest2 instId sz2
                   (snd (convert_contract_coin pyfloat rest instId sz st)))
              = Converted (z2 * (r / z))
            \<and> rest_calls (snd (convert_contract_coin pyfloat rest2 instId sz2
                   (snd (convert_contract_coin pyfloat rest instId sz st))))
              = rest_calls st + k + 1))
   \<and> (conversion_cache st key = Some v \<longrightarrow>
        conversion_cache (snd (convert_contract_coin pyfloat rest instId sz st)) key = Some v)
   \<and> map row_amount (okx_journal (handle_detail int_dec float_dec rest_s3 ''ETH-USDT-SWAP''
        (mk_detail ''sell'' ''long'' ''2000'' ''10'') (okx_state_init Map.empty))) = [200]
   \<and> map row_amount (okx_journal (handle_detail int_dec float_dec rest_s3 ''ETH-USDT-SWAP''
        (mk_detail ''sell'' ''long'' ''2100'' ''50'')
        (handle_detail int_dec float_dec rest_s3 ''ETH-USDT-SWAP''
           (mk_detail ''sell'' ''long'' ''2000'' ''10'') (okx_state_init Map.empty)))) = [200, 1050]
   \<and> rest_calls (handle_detail int_dec float_dec rest_s3 ''ETH-USDT-SWAP''
        (mk_detail ''sell'' ''long'' ''2100'' ''50'')
        (handle_detail int_dec float_dec rest_s3 ''ETH-USDT-SWAP''
           (mk_detail ''sell'' ''long'' ''2000'' ''10'') (okx_state_init Map.empty))) = 1"
proof -
  have hit: "conversion_cache st instId = Some ratio \<and> pyfloat sz = Some z \<longrightarrow>
      convert_contract_coin pyfloat rest instId sz st =
        (Converted (z * ratio), st\<lparr>cache_hits := cache_hits st + 1\<rparr>)"
    by (simp add: convert_hit)
  have miss: "conversion_cache st instId = None \<and> pyfloat sz = Some z \<and> z \<noteq> 0 \<and> k < 3
       \<and> rest_ok pyfloat (rest (rest_calls st + k)) = Some r
       \<and> (\<forall>j<k. rest_ok pyfloat (rest (rest_calls st + j)) = None) \<longrightarrow>
      fst (convert_contract_coin pyfloat rest instId sz st) = Converted (z * (r / z))
      \<and> conversion_cache (snd (convert_contract_coin pyfloat rest instId sz st))
          = (conversion_cache st)(instId \<mapsto> r / z)
      \<and> rest_calls (snd (convert_contract_coin pyfloat rest instId sz st)) = rest_calls st + k + 1
      \<and> (pyfloat sz2 = Some z2 \<longrightarrow>
            fst (convert_contract_coin pyfloat rest2 instId sz2
                   (snd (convert_contract_coin pyfloat rest instId sz st)))
              = Converted (z2 * (r / z))
            \<and> rest_calls (snd (convert_contract_coin pyfloat rest2 instId sz2
                   (snd (convert_contract_coin pyfloat rest instId sz st))))
              = rest_calls st + k + 1)"
  proof (intro impI)
    assume a: "conversion_cache st instId = None \<and> pyfloat sz = Some z \<and> z \<noteq> 0 \<and> k < 3
       \<and> rest_ok pyfloat (rest (rest_calls st + k)) = Some r
       \<and> (\<forall>j<k. rest_ok pyfloat (rest (rest_calls st + j)) = None)"
    let ?st1 = "st\<lparr>api_calls := api_calls st + 1, rest_calls := rest_calls st + k + 1,
               conversion_cache := (conversion_cache st)(instId \<mapsto> r / z)\<rparr>"
    have first: "convert_contract_coin pyfloat rest instId sz st = (Converted (z * (r / z)), ?st1)"
      using a by (intro convert_miss) simp_all
    have second: "pyfloat sz2 = Some z2 \<Longrightarrow>
        convert_contract_coin pyfloat rest2 instId sz2 ?st1 =
          (Converted (z2 * (r / z)), ?st1\<lparr>cache_hits := cache_hits ?st1 + 1\<rparr>)"
      by (intro convert_hit) simp_all
    show "fst (convert_contract_coin pyfloat rest instId sz st) = Converted (z * (r / z))
      \<and> conversion_cache (snd (convert_contract_coin pyfloat rest instId sz st))
          = (conversion_cache st)(instId \<mapsto> r / z)
      \<and> rest_calls (snd (convert_contract_coin pyfloat rest instId sz st)) = rest_calls st + k + 1
      \<and> (pyfloat sz2 = Some z2 \<longrightarrow>
            fst (convert_contract_coin pyfloat rest2 instId sz2
                   (snd (convert_contract_coin pyfloat rest instId sz st)))
              = Converted (z2 * (r / z))
            \<and> rest_calls (snd (convert_contract_coin pyfloat rest2 instId sz2
                   (snd (convert_contract_coin pyfloat rest instId sz st))))
              = rest_calls st + k + 1)"
      unfolding first using second by simp
  qed
  have perm: "conversion_cache st key = Some v \<longrightarrow>
        conversion_cache (snd (convert_contract_coin pyfloat rest instId sz st)) key = Some v"
    by (simp add: convert_cache_permanent)
  have s3a: "map row_amount (okx_journal (handle_detail int_dec float_dec rest_s3 ''ETH-USDT-SWAP''
        (mk_detail ''sell'' ''long'' ''2000'' ''10'') (okx_state_init Map.empty))) = [200]"
    by (simp add: okx_s3_first)
  have s3b: "map row_amount (okx_journal (handle_detail int_dec float_dec rest_s3 ''ETH-USDT-SWAP''
        (mk_detail ''sell'' ''long'' ''2100'' ''50'')
        (handle_detail int_dec float_dec rest_s3 ''ETH-USDT-SWAP''
           (mk_detail ''sell'' ''long'' ''2000'' ''10'') (okx_state_init Map.empty)))) = [200, 1050]"
    by (simp add: okx_s3_second)
  have s3c: "rest_calls (handle_detail int_dec float_dec rest_s3 ''ETH-USDT-SWAP''
        (mk_detail ''sell'' ''long'' ''2100'' ''50'')
        (handle_detail int_dec float_dec rest_s3 ''ETH-USDT-SWAP''
           (mk_detail ''sell'' ''long'' ''2000'' ''10'') (okx_state_init Map.empty))) = 1"
    by (simp add: okx_s3_second)
  from hit miss perm s3a s3b s3c show ?thesis by blast
qed

text \<open>The conversion steps of scenario S3 on their own: the miss answered by 0.1 for
  \<open>sz = 10\<close> stores the ratio 0.01 after one request; the call for \<open>sz = 50\<close> on the
  resulting state, with the service down, returns 0.5 and makes no request.\<close>

theorem convert_contract_coin_cache_witness:
  "conversion_cache (okx_state_init Map.empty) ''ETH-USDT-SWAP'' = None
   \<and> float_dec ''10'' = Some 10 \<and> (10::real) \<noteq> 0 \<and> (0::nat) < 3
   \<and> rest_ok float_dec (rest_s3 (rest_calls (okx_state_init Map.empty) + 0)) = Some (1 / 10)
   \<and> float_dec ''50'' = Some 50
   \<and> fst (convert_contract_coin float_dec rest_s3 ''ETH-USDT-SWAP'' ''10'' (okx_state_init Map.empty))
       = Converted (1 / 10)
   \<and> conversion_cache (snd (convert_contract_coin float_dec rest_s3 ''ETH-USDT-SWAP'' ''10''
        (okx_state_init Map.empty))) ''ETH-USDT-SWAP'' = Some (1 / 100)
   \<and> rest_calls (snd (convert_contract_coin float_dec rest_s3 ''ETH-USDT-SWAP'' ''10''
        (okx_state_init Map.empty))) = 1
   \<and> fst (convert_contract_coin float_dec rest_down ''ETH-USDT-SWAP'' ''50''
        (snd (convert_contract_coin float_dec rest_s3 ''ETH-USDT-SWAP'' ''10''
           (okx_state_init Map.empty)))) = Converted (1 / 2)
   \<and> rest_calls (snd (convert_contract_coin float_dec rest_down ''ETH-USDT-SWAP'' ''50''
        (snd (convert_contract_coin float_dec rest_s3 ''ETH-USDT-SWAP'' ''10''
           (okx_state_init Map.empty))))) = 1
   \<and> convert_contract_coin float_dec rest_down ''ETH-USDT-SWAP'' ''50''
        (okx_state_init (eth_cache (1 / 100)))
       = (Converted (50 * (1 / 100)),
          (okx_state_init (eth_cache (1 / 100)))\<lparr>cache_hits := 1\<rparr>)"
proof -
  have h1: "conversion_cache (okx_state_init Map.empty) ''ETH-USDT-SWAP'' = None"
    by (simp add: okx_state_init_def)
  have h2: "rest_ok float_dec (rest_s3 (rest_calls (okx_state_init Map.empty) + 0)) = Some (1 / 10)"
    by (simp add: rest_ok_def rest_s3_def okx_state_init_def float_dec_values)
  have h3: "conversion_cache (okx_state_init (eth_cache (1 / 100))) ''ETH-USDT-SWAP'' = Some (1 / 100)"
    by (simp add: okx_state_init_def eth_cache_def)
  have rc: "rest_calls (okx_state_init Map.empty) = 0"
    by (simp add: okx_state_init_def)
  have ch: "cache_hits (okx_state_init (eth_cache (1 / 100))) = 0"
    by (simp add: okx_state_init_def)
  show ?thesis
    using convert_contract_coin_cache [of "okx_state_init Map.empty" "''ETH-USDT-SWAP''" "1 / 100"
            float_dec "''10''" 10 rest_s3 0 "1 / 10" "''50''" 50 rest_down "''ETH-USDT-SWAP''" "1 / 100"]
          convert_contract_coin_cache [of "okx_state_init (eth_cache (1 / 100))" "''ETH-USDT-SWAP''"
            "1 / 100" float_dec "''50''" 50 rest_down 0 "1 / 10" "''50''" 50 rest_down
            "''ETH-USDT-SWAP''" "1 / 100"]
          h1 h2 h3
    by (simp add: float_dec_values rc ch)
qed

subsection \<open>The journaled amount\<close>












section \<open>Threshold and price of journaled rows\<close>







lemma ba_s1:
  "ba_journal (handle_event float_dec
      (mk_force_order 1700000000000 ''BTCUSDT'' ''SELL'' ''0.5'' ''40000'') ba_state_init) =
   [\<lparr>row_time = 1700028800, row_symbol = ''BTC'', row_tag = ''BA'', row_price = 40000,
     row_direction = LONG_LIQUIDATED, row_amount = 20000\<rparr>]"
  by (simp add: handle_event_def mk_force_order_def ba_state_init_def float_get2_def
      float_dec_values utcfromtimestamp_plus8h_def threshold_def strip_quote_suffix_def
      drop_quote_rev_def drop_S_rev_def)




section \<open>The /history handler\<close>

lemma query_no_limit_eq:
  "(case arg_limit args of None \<Rightarrow> True | Some l \<Rightarrow> l = [] \<or> \<not> isdigit l)
   \<Longrightarrow> api_history strip isdigit pyint strptime args s
       = \<lparr>status = 200,
          body = query (parse_datetime_param strip isdigit pyint strptime (arg_since args))
                   (parse_datetime_param strip isdigit pyint strptime (arg_until args))
                   (csv_param strip (arg_symbols args)) (csv_param strip (arg_exchanges args))
                   (csv_param strip (arg_directions args)) None s\<rparr>"
  by (auto simp: api_history_def Let_def split: option.splits)

lemma parse_datetime_param_None [simp]:
  "parse_datetime_param strip isdigit pyint strptime None = None"
  by (simp add: parse_datetime_param_def)

text \<open>
  Claim C9, as amended. The handler of \<^verbatim>\<open>/history\<close> never answers 400. A \<^verbatim>\<open>since\<close>
  or \<^verbatim>\<open>until\<close> value that \<^verbatim>\<open>_parse_datetime_param\<close> cannot read is treated as if
  the parameter were absent, and so is a \<^verbatim>\<open>limit\<close> that is empty or not a digit
  string: the answer is the one of the same request without that parameter. The
  status is 200 whenever the limit is absent, is not a digit string, or is one that
  \<^verbatim>\<open>int\<close> reads.
\<close>

theorem api_history_lenient:
  "status (api_history strip isdigit pyint strptime args s) \<noteq> 400
   \<and> (parse_datetime_param strip isdigit pyint strptime (arg_since args) = None \<longrightarrow>
        api_history strip isdigit pyint strptime args s
          = api_history strip isdigit pyint strptime (args\<lparr>arg_since := None\<rparr>) s)
   \<and> (parse_datetime_param strip isdigit pyint strptime (arg_until args) = None \<longrightarrow>
        api_history strip isdigit pyint strptime args s
          = api_history strip isdigit pyint strptime (args\<lparr>arg_until := None\<rparr>) s)
   \<and> ((case arg_limit args of None \<Rightarrow> True | Some l \<Rightarrow> l = [] \<or> \<not> isdigit l) \<longrightarrow>
        status (api_history strip isdigit pyint strptime args s) = 200
        \<and> api_history strip isdigit pyint strptime args s
            = api_history strip isdigit pyint strptime (args\<lparr>arg_limit := None\<rparr>) s)
   \<and> ((case arg_limit args of None \<Rightarrow> True | Some l \<Rightarrow> pyint l \<noteq> None) \<longrightarrow>
        status (api_history strip isdigit pyint strptime args s) = 200)"
proof (intro conjI impI)
  show "status (api_history strip isdigit pyint strptime args s) \<noteq> 400"
    by (auto simp: api_history_def Let_def split: option.splits)
next
  assume "parse_datetime_param strip isdigit pyint strptime (arg_since args) = None"
  then show "api_history strip isdigit pyint strptime args s
          = api_history strip isdigit pyint strptime (args\<lparr>arg_since := None\<rparr>) s"
    by (simp add: api_history_def)
next
  assume "parse_datetime_param strip isdigit pyint strptime (arg_until args) = None"
  then show "api_history strip isdigit pyint strptime args s
          = api_history strip isdigit pyint strptime (args\<lparr>arg_until := None\<rparr>) s"
    by (simp add: api_history_def)
next
  assume a: "case arg_limit args of None \<Rightarrow> True | Some l \<Rightarrow> l = [] \<or> \<not> isdigit l"
  from query_no_limit_eq [OF a]
  show "status (api_history strip isdigit pyint strptime args s) = 200" by simp
next
  assume a: "case arg_limit args of None \<Rightarrow> True | Some l \<Rightarrow> l = [] \<or> \<not> isdigit l"
  have "api_history strip isdigit pyint strptime (args\<lparr>arg_limit := None\<rparr>) s
       = \<lparr>status = 200,
          body = query (parse_datetime_param strip isdigit pyint strptime (arg_since args))
                   (parse_datetime_param strip isdigit pyint strptime (arg_until args))
                   (csv_param strip (arg_symbols args)) (csv_param strip (arg_exchanges args))
                   (csv_param strip (arg_directions args)) None s\<rparr>"
    by (simp add: api_history_def)
  then show "api_history strip isdigit pyint strptime args s
            = api_history strip isdigit pyint strptime (args\<lparr>arg_limit := None\<rparr>) s"
    using query_no_limit_eq [OF a] by simp
next
  assume "case arg_limit args of None \<Rightarrow> True | Some l \<Rightarrow> pyint l \<noteq> None"
  then show "status (api_history strip isdigit pyint strptime args s) = 200"
    by (auto simp: api_history_def Let_def split: option.splits)
qed

lemma unparseable_values:
  "strip_ws ''yesterday'' = ''yesterday''"
  "isdigit_ascii ''yesterday'' = False"
  "isdigit_ascii ''ten'' = False"
  "strptime_ymdhms ''yesterday'' = None"
  by (simp_all add: strip_ws_def is_space_def isdigit_ascii_def digit_of_def strptime_ymdhms_def)

lemma args_unparseable_since:
  "parse_datetime_param strip_ws isdigit_ascii int_dec strptime_ymdhms (arg_since args_unparseable)
     = None"
  by (simp add: parse_datetime_param_def args_unparseable_def unparseable_values)

text \<open>The request \<^verbatim>\<open>/history?since=yesterday&limit=ten\<close> on the store of scenario S6:
  neither value can be read, and the answer is 200 with every event.\<close>

theorem api_history_counterexample:
  "parse_datetime_param strip_ws isdigit_ascii int_dec strptime_ymdhms (Some ''yesterday'') = None
   \<and> isdigit_ascii ''ten'' = False
   \<and> api_history strip_ws isdigit_ascii int_dec strptime_ymdhms args_unparseable store_s6
       = \<lparr>status = 200, body = map to_public_dict (events store_s6)\<rparr>"
  by (simp add: api_history_def parse_datetime_param_def args_unparseable_def unparseable_values
      csv_param_def query_def query_keeps_def)

theorem api_history_lenient_witness:
  "parse_datetime_param strip_ws isdigit_ascii int_dec strptime_ymdhms (arg_since args_unparseable)
     = None
   \<and> arg_limit args_unparseable = Some ''ten'' \<and> \<not> isdigit_ascii ''ten''
   \<and> status (api_history strip_ws isdigit_ascii int_dec strptime_ymdhms args_unparseable store_s6)
       = 200
   \<and> api_history strip_ws isdigit_ascii int_dec strptime_ymdhms args_unparseable store_s6
       = api_history strip_ws isdigit_ascii int_dec strptime_ymdhms
           (args_unparseable\<lparr>arg_since := None\<rparr>) store_s6
   \<and> api_history strip_ws isdigit_ascii int_dec strptime_ymdhms args_unparseable store_s6
       = api_history strip_ws isdigit_ascii int_dec strptime_ymdhms
           (args_unparseable\<lparr>arg_limit := None\<rparr>) store_s6"
proof -
  have l: "arg_limit args_unparseable = Some ''ten''"
    by (simp add: args_unparseable_def)
  have h: "case arg_limit args_unparseable of None \<Rightarrow> True | Some l \<Rightarrow> l = [] \<or> \<not> isdigit_ascii l"
    by (simp add: l unparseable_values)
  have d: "\<not> isdigit_ascii ''ten''"
    by (simp add: unparseable_values)
  show ?thesis
    using api_history_lenient [of strip_ws isdigit_ascii int_dec strptime_ymdhms args_unparseable
            store_s6] args_unparseable_since l h d
    by blast
qed

section \<open>The /stream generator\<close>

lemma sse_tick_items:
  "frame_items (fst (sse_tick upper f s last_ts)) =
     map to_public_dict
       (filter (\<lambda>e. stream_keeps upper f e \<and> last_ts < real_of_int (timestamp e)) (events s))"
proof -
  have "filter (stream_keeps upper f) (iter_since last_ts s) =
        filter (\<lambda>e. stream_keeps upper f e \<and> last_ts < real_of_int (timestamp e)) (events s)"
    by (simp add: iter_since_def conj_commute)
  then show ?thesis
    by (auto simp: sse_tick_def Let_def frame_items_def)
qed

lemma sse_tick_cursor:
  "snd (sse_tick upper f s last_ts) =
     (if frame_items (fst (sse_tick upper f s last_ts)) = [] then last_ts
      else real_of_int (pd_datetime (last (frame_items (fst (sse_tick upper f s last_ts))))))"
  by (auto simp: sse_tick_def Let_def frame_items_def)

lemma sse_tick_newer:
  "d \<in> set (frame_items (fst (sse_tick upper f s last_ts))) \<Longrightarrow> last_ts < real_of_int (pd_datetime d)"
  by (auto simp: sse_tick_items to_public_dict_def)

lemma sse_tick_mono: "last_ts \<le> snd (sse_tick upper f s last_ts)"
proof (cases "frame_items (fst (sse_tick upper f s last_ts)) = []")
  case True
  then show ?thesis by (simp add: sse_tick_cursor)
next
  case False
  then have "last (frame_items (fst (sse_tick upper f s last_ts)))
               \<in> set (frame_items (fst (sse_tick upper f s last_ts)))"
    by simp
  from sse_tick_newer [OF this] False show ?thesis
    by (simp add: sse_tick_cursor)
qed

lemma sse_run_length: "length (sse_run upper f last_ts ss) = length ss"
  by (induction ss arbitrary: last_ts) (simp_all add: Let_def)

text \<open>Every item delivered in a run is newer than the cursor the run started with.\<close>

lemma sse_run_newer:
  "j < length ss \<Longrightarrow> d \<in> set (frame_items (fst (sse_run upper f last_ts ss ! j)))
   \<Longrightarrow> last_ts < real_of_int (pd_datetime d)"
proof (induction ss arbitrary: last_ts j)
  case Nil
  then show ?case by simp
next
  case (Cons s ss)
  show ?case
  proof (cases j)
    case 0
    with Cons.prems show ?thesis by (simp add: Let_def sse_tick_newer)
  next
    case (Suc j')
    with Cons.prems have "snd (sse_tick upper f s last_ts) < real_of_int (pd_datetime d)"
      by (intro Cons.IH [of j']) (simp_all add: Let_def)
    with sse_tick_mono [of last_ts upper f s] show ?thesis by simp
  qed
qed

text \<open>The ticks after tick \<open>i\<close> are a run that starts with the cursor tick \<open>i\<close> left.\<close>

lemma sse_run_drop:
  "i < length ss \<Longrightarrow>
   drop (Suc i) (sse_run upper f last_ts ss) =
     sse_run upper f (snd (sse_run upper f last_ts ss ! i)) (drop (Suc i) ss)"
proof (induction ss arbitrary: last_ts i)
  case Nil
  then show ?case by simp
next
  case (Cons s ss)
  show ?case
  proof (cases i)
    case 0
    then show ?thesis by (simp add: Let_def)
  next
    case (Suc i')
    with Cons.prems have "i' < length ss" by simp
    from Cons.IH [OF this, of "snd (sse_tick upper f s last_ts)"] Suc
    show ?thesis by (simp add: Let_def)
  qed
qed

text \<open>
  Claim C8. On a tick, the frame holds exactly the events of the store that pass the
  filter and whose timestamp is strictly greater than \<^verbatim>\<open>last_ts\<close>, in store order (a
  keep-alive comment when there is none); the new cursor is the timestamp of the last
  item of the frame, and the old cursor when the frame is empty; it is never smaller
  than the old one. In a connection, whatever the store is at each tick, no item
  delivered at a later tick \<open>j\<close> has a timestamp less than or equal to the cursor left
  by an earlier tick \<open>i\<close>.
\<close>

theorem sse_tick_semantics:
  "frame_items (fst (sse_tick upper f s last_ts)) =
     map to_public_dict
       (filter (\<lambda>e. stream_keeps upper f e \<and> last_ts < real_of_int (timestamp e)) (events s))
   \<and> (fst (sse_tick upper f s last_ts) = KeepAlive
        \<longleftrightarrow> frame_items (fst (sse_tick upper f s last_ts)) = [])
   \<and> snd (sse_tick upper f s last_ts) =
       (if frame_items (fst (sse_tick upper f s last_ts)) = [] then last_ts
        else real_of_int (pd_datetime (last (frame_items (fst (sse_tick upper f s last_ts))))))
   \<and> last_ts \<le> snd (sse_tick upper f s last_ts)
   \<and> (\<forall>i j. i < j \<and> j < length ss \<longrightarrow>
        (\<forall>d \<in> set (frame_items (fst (sse_run upper f last_ts ss ! j))).
           snd (sse_run upper f last_ts ss ! i) < real_of_int (pd_datetime d)))"
proof (intro conjI allI impI ballI)
  show "frame_items (fst (sse_tick upper f s last_ts)) =
     map to_public_dict
       (filter (\<lambda>e. stream_keeps upper f e \<and> last_ts < real_of_int (timestamp e)) (events s))"
    by (rule sse_tick_items)
next
  show "(fst (sse_tick upper f s last_ts) = KeepAlive)
        = (frame_items (fst (sse_tick upper f s last_ts)) = [])"
    by (auto simp: sse_tick_def Let_def frame_items_def)
next
  show "snd (sse_tick upper f s last_ts) =
       (if frame_items (fst (sse_tick upper f s last_ts)) = [] then last_ts
        else real_of_int (pd_datetime (last (frame_items (fst (sse_tick upper f s last_ts))))))"
    by (rule sse_tick_cursor)
next
  show "last_ts \<le> snd (sse_tick upper f s last_ts)"
    by (rule sse_tick_mono)
next
  fix i j d
  assume ij: "i < j \<and> j < length ss"
    and d: "d \<in> set (frame_items (fst (sse_run upper f last_ts ss ! j)))"
  let ?run = "sse_run upper f last_ts ss"
  let ?c = "snd (?run ! i)"
  from ij have i: "i < length ss" by simp
  have len: "length ?run = length ss" by (rule sse_run_length)
  have "?run ! j = drop (Suc i) ?run ! (j - Suc i)"
    using ij len by simp
  also have "\<dots> = sse_run upper f ?c (drop (Suc i) ss) ! (j - Suc i)"
    by (simp only: sse_run_drop [OF i])
  finally have eq: "?run ! j = sse_run upper f ?c (drop (Suc i) ss) ! (j - Suc i)" .
  have "j - Suc i < length (drop (Suc i) ss)" using ij by (simp, arith)
  from sse_run_newer [OF this, of d upper f ?c] d eq
  show "?c < real_of_int (pd_datetime d)" by simp
qed

lemma upper_btc: "upper_ascii ''BTC'' = ''BTC''" "upper_ascii ''ETH'' = ''ETH''"
  by (simp_all add: upper_ascii_def upper_char_def)

lemma s6_tick:
  "sse_tick upper_ascii filter_btc store_s6_early 50 =
     (Data [to_public_dict (mk_event 100 ''BTC'' ''Binance'' 40000 LONG_LIQUIDATED 20000)], 100)"
  by (simp add: sse_tick_def iter_since_def store_s6_early_def stream_keeps_def filter_btc_def
      mk_event_def to_public_dict_def upper_btc Let_def)

lemma s6_tick2:
  "sse_tick upper_ascii filter_btc store_s6 100 =
     (Data [to_public_dict (mk_event 200 ''BTC'' ''OKX'' 40100 SHORT_LIQUIDATED 500),
            to_public_dict (mk_event 300 ''BTC'' ''Binance'' 40200 LONG_LIQUIDATED 700)], 300)"
  by (simp add: sse_tick_def iter_since_def store_s6_def stream_keeps_def filter_btc_def
      mk_event_def to_public_dict_def upper_btc Let_def)

lemma s6_tick3: "sse_tick upper_ascii filter_btc store_s6 300 = (KeepAlive, 300)"
  by (simp add: sse_tick_def iter_since_def store_s6_def stream_keeps_def filter_btc_def
      mk_event_def to_public_dict_def upper_btc Let_def)

text \<open>Scenario S6: a client of \<^verbatim>\<open>/stream?symbols=BTC\<close> connected at time 50. The first
  tick finds one BTC event and leaves the cursor at 100; the second tick finds the
  store grown by an ETH and two BTC events and delivers the two BTC events, in store
  order, both newer than 100; the third tick delivers nothing.\<close>

theorem sse_tick_semantics_witness:
  "(0::nat) < 1 \<and> (1::nat) < length [store_s6_early, store_s6, store_s6]
   \<and> sse_run upper_ascii filter_btc 50 [store_s6_early, store_s6, store_s6] =
       [(Data [to_public_dict (mk_event 100 ''BTC'' ''Binance'' 40000 LONG_LIQUIDATED 20000)], 100),
        (Data [to_public_dict (mk_event 200 ''BTC'' ''OKX'' 40100 SHORT_LIQUIDATED 500),
               to_public_dict (mk_event 300 ''BTC'' ''Binance'' 40200 LONG_LIQUIDATED 700)], 300),
        (KeepAlive, 300)]
   \<and> snd (sse_run upper_ascii filter_btc 50 [store_s6_early, store_s6, store_s6] ! 0)
       < real_of_int (pd_datetime (to_public_dict
           (mk_event 200 ''BTC'' ''OKX'' 40100 SHORT_LIQUIDATED 500)))
   \<and> snd (sse_run upper_ascii filter_btc 50 [store_s6_early, store_s6, store_s6] ! 0)
       < real_of_int (pd_datetime (to_public_dict
           (mk_event 300 ''BTC'' ''Binance'' 40200 LONG_LIQUIDATED 700)))"
proof -
  have run: "sse_run upper_ascii filter_btc 50 [store_s6_early, store_s6, store_s6] =
       [(Data [to_public_dict (mk_event 100 ''BTC'' ''Binance'' 40000 LONG_LIQUIDATED 20000)], 100),
        (Data [to_public_dict (mk_event 200 ''BTC'' ''OKX'' 40100 SHORT_LIQUIDATED 500),
               to_public_dict (mk_event 300 ''BTC'' ''Binance'' 40200 LONG_LIQUIDATED 700)], 300),
        (KeepAlive, 300)]"
    by (simp add: s6_tick s6_tick2 s6_tick3 Let_def)
  have newer: "\<forall>d \<in> set (frame_items (fst (sse_run upper_ascii filter_btc 50
                                       [store_s6_early, store_s6, store_s6] ! 1))).
         snd (sse_run upper_ascii filter_btc 50 [store_s6_early, store_s6, store_s6] ! 0)
           < real_of_int (pd_datetime d)"
    using sse_tick_semantics [of upper_ascii filter_btc store_s6 50
            "[store_s6_early, store_s6, store_s6]",
            THEN conjunct2, THEN conjunct2, THEN conjunct2, THEN conjunct2, rule_format, of 0 1]
    by simp
  have items: "frame_items (fst (sse_run upper_ascii filter_btc 50
                                   [store_s6_early, store_s6, store_s6] ! 1)) =
      [to_public_dict (mk_event 200 ''BTC'' ''OKX'' 40100 SHORT_LIQUIDATED 500),
       to_public_dict (mk_event 300 ''BTC'' ''Binance'' 40200 LONG_LIQUIDATED 700)]"
    unfolding run by (simp add: frame_items_def)
  from newer have "snd (sse_run upper_ascii filter_btc 50 [store_s6_early, store_s6, store_s6] ! 0)
       < real_of_int (pd_datetime (to_public_dict
           (mk_event 200 ''BTC'' ''OKX'' 40100 SHORT_LIQUIDATED 500)))"
    and "snd (sse_run upper_ascii filter_btc 50 [store_s6_early, store_s6, store_s6] ! 0)
       < real_of_int (pd_datetime (to_public_dict
           (mk_event 300 ''BTC'' ''Binance'' 40200 LONG_LIQUIDATED 700)))"
    unfolding items by simp_all
  with run show ?thesis by simp
qed

section \<open>Aggregates: the ten largest totals\<close>


lemma first_seen_set [simp]: "set (first_seen xs) = set xs"
  by (simp add: first_seen_def)

lemma first_seen_distinct [simp]: "distinct (first_seen xs)"
  by (simp add: first_seen_def)
















section \<open>Booting the hub on a journal\<close>

lemma float_dec_journal:
  "float_dec ''2000.00000000'' = Some 2000"
  "float_dec ''200.00'' = Some 200"
  by (simp_all add: float_dec_def ufloat_dec_def nat_dec_def digit_of_def)

lemma strip_quote_suffix_base:
  "strip_quote_suffix ''ETH'' = ''ETH''"
  "strip_quote_suffix ''BTC'' = ''BTC''"
  by (simp_all add: strip_quote_suffix_def drop_quote_rev_def drop_S_rev_def)

lemma header_not_row: "length CSV_HEADER = 6"
  by (simp add: CSV_HEADER_def)

lemma journal_ba_loaded:
  "initial_load_from_csv strptime_ymdhms float_dec journal_ba =
     [mk_event 1577836800 ''ETH'' ''Binance'' 2000 LONG_LIQUIDATED 200,
      mk_event 1700028800 ''BTC'' ''Binance'' 40000 LONG_LIQUIDATED 20000]"
  by (simp add: initial_load_from_csv_def journal_ba_def load_row_def strptime_2023 strptime_2020
      float_dec_values float_dec_journal strip_quote_suffix_base mk_event_def)

lemma initial_load_absent: "initial_load_from_csv strptime pyfloat None = []"
  by (simp add: initial_load_from_csv_def)

lemma read_new_lines_absent: "read_new_lines strptime pyfloat None (t, s) = (t, s)"
  by (simp add: read_new_lines_def)

lemma journal_ba_bootstrap:
  "initial_bootstrap strptime_ymdhms float_dec 1700028860 RETENTION_HOURS_DEFAULT journal_ba None
     (EventStore_init RETENTION_HOURS_DEFAULT) =
   \<lparr>retention = 172800,
    events = [mk_event 1700028800 ''BTC'' ''Binance'' 40000 LONG_LIQUIDATED 20000],
    last_seen_per_exchange = [''Binance'' \<mapsto> 1700028800]\<rparr>"
  by (simp add: initial_bootstrap_def journal_ba_loaded append_recent_def Let_def
      RETENTION_HOURS_DEFAULT_def EventStore_init_def store_append_def evict_older_than_def
      mk_event_def initial_load_absent)

text \<open>
  Claim C1, on the journal of scenario S1 preceded by a row of 2020. The hub is booted
  one minute after the S1 event, at 1700028860; the retention is 48 hours. The claim
  asks for a store holding the BTC event alone. \<^verbatim>\<open>initial_bootstrap\<close> gives that
  store; the tailer then starts at line 0 of the same file and appends the row of
  2020, which no cutoff filters there, and the BTC row a second time.
\<close>

theorem hub_boot_replays_journal:
  "events (initial_bootstrap strptime_ymdhms float_dec 1700028860 RETENTION_HOURS_DEFAULT
             journal_ba None (EventStore_init RETENTION_HOURS_DEFAULT))
     = [mk_event 1700028800 ''BTC'' ''Binance'' 40000 LONG_LIQUIDATED 20000]
   \<and> events (hub_boot strptime_ymdhms float_dec 1700028860 journal_ba None)
     = [mk_event 1700028800 ''BTC'' ''Binance'' 40000 LONG_LIQUIDATED 20000,
        mk_event 1577836800 ''ETH'' ''Binance'' 2000 LONG_LIQUIDATED 200,
        mk_event 1700028800 ''BTC'' ''Binance'' 40000 LONG_LIQUIDATED 20000]"
proof -
  have tail: "events (snd (read_new_lines strptime_ymdhms float_dec journal_ba
                (CsvTailer_init,
                 \<lparr>retention = 172800,
                  events = [mk_event 1700028800 ''BTC'' ''Binance'' 40000 LONG_LIQUIDATED 20000],
                  last_seen_per_exchange = [''Binance'' \<mapsto> 1700028800]\<rparr>)))
     = [mk_event 1700028800 ''BTC'' ''Binance'' 40000 LONG_LIQUIDATED 20000,
        mk_event 1577836800 ''ETH'' ''Binance'' 2000 LONG_LIQUIDATED 200,
        mk_event 1700028800 ''BTC'' ''Binance'' 40000 LONG_LIQUIDATED 20000]"
    by (simp add: read_new_lines_def journal_ba_def CsvTailer_init_def tail_step_def
        header_not_row ingest_row_def strptime_2023 strptime_2020 float_dec_values
        float_dec_journal strip_quote_suffix_base store_append_def evict_older_than_def
        mk_event_def)
  show ?thesis
    by (simp add: hub_boot_def Let_def journal_ba_bootstrap tail split_beta
        read_new_lines_absent [of _ _ "fst p" "snd p" for p, simplified])
qed

end
